theory Spec2Isabelle
  imports Complex_Main "HOL-Library.Char_ord" "HOL-Library.List_Lexorder" "HOL-Library.Multiset"
begin

section \<open>Data model of app.py\<close>

text \<open>
  The six SQLAlchemy models become records. Isabelle record fields are global names, so
  every column carries a prefix for its table (\<open>u_\<close> User, \<open>s_\<close> Shift, \<open>r_\<close> Reservation,
  \<open>rep_\<close> ShiftReport, \<open>t_\<close> TimeEntry, \<open>d_\<close> ClothingDeposit); apart from the prefix the
  column names are those of the source. Python integers are \<open>int\<close>. A \<open>DateTime\<close> and a
  \<open>Date\<close> are positions on an ordered time line. A \<open>Float\<close> column holds a finite value, an
  infinity or a NaN; no property below depends on rounding, so the finite values are reals.
  SQLite keeps a NaN as NULL; the model keeps the NaN, and no property below reads one back.
  A nullable foreign key is an \<open>int option\<close>.
\<close>

type_synonym datetime = int
type_synonym pydate = int

datatype pyfloat = Finite real | Infinity bool | NaN

record user =
  u_id :: int
  u_username :: string
  u_full_name :: string
  u_role :: string
  u_password_hash :: string

record shift =
  s_id :: int
  s_employee :: string
  s_role :: string
  s_start :: datetime
  s_end :: datetime

record reservation =
  r_id :: int
  r_customer :: string
  r_size :: int
  r_at :: datetime
  r_notes :: string

record shift_report =
  rep_id :: int
  rep_date :: pydate
  rep_lead_id :: "int option"
  rep_revenue :: pyfloat
  rep_issues :: string
  rep_notes :: string

record time_entry =
  t_id :: int
  t_user_id :: "int option"
  t_start :: datetime
  t_end :: datetime
  t_note :: string

record clothing_deposit =
  d_id :: int
  d_user_id :: "int option"
  d_item :: string
  d_size :: string
  d_amount :: pyfloat
  d_date :: pydate
  d_returned :: bool
  d_notes :: string

text \<open>
  The database: one list of rows per table, in insertion order. \<open>db.session.add(x);
  db.session.commit()\<close> appends a row whose primary key is one more than the largest key
  of the table (SQLite's rowid rule). The source never switches on SQLite's foreign-key
  enforcement and never looks a referenced user up before an insert, so an insert does not
  inspect the user table.
\<close>

record store =
  users_tbl :: "user list"
  shifts_tbl :: "shift list"
  reservations_tbl :: "reservation list"
  reports_tbl :: "shift_report list"
  hours_tbl :: "time_entry list"
  deposits_tbl :: "clothing_deposit list"

definition next_id :: "int list \<Rightarrow> int" where
  "next_id ids = fold max ids 0 + 1"

definition empty_store :: store where
  "empty_store = \<lparr>users_tbl = [], shifts_tbl = [], reservations_tbl = [], reports_tbl = [],
     hours_tbl = [], deposits_tbl = []\<rparr>"

section \<open>Requests, responses and the library functions the handlers call\<close>

datatype http_method = GET | POST

text \<open>\<open>request.method\<close> and \<open>request.form\<close>; the first is \<open>req_method\<close> here, \<open>method\<close>
  being a command of Isabelle.\<close>

record request =
  req_method :: http_method
  form :: "string \<rightharpoonup> string"

text \<open>
  What a request can end in without a response of the handler's own: \<open>request.form[k]\<close>
  on a missing key raises BadRequestKeyError (status 400); \<open>int\<close>, \<open>float\<close> and
  \<open>datetime.fromisoformat\<close> raise ValueError on text they cannot read, and a commit that
  breaks the unique constraint on \<open>username\<close> raises IntegrityError; a commit that
  binds a Python integer outside the signed 64-bit range of an SQLite INTEGER column
  raises OverflowError; the source catches none of them, so the framework answers 500
  Internal Server Error; \<open>get_or_404\<close> aborts with 404. In each of these the session is
  never committed and the store keeps its value.
\<close>

datatype error = BadRequestKeyError | ValueError | IntegrityError | OverflowError | NotFound

text \<open>The flashed notices of the source, all in category "error".\<close>

datatype flash =
    Keine_Berechtigung
  | Nur_Schichtleitung_Manager_duerfen_Schichten_anlegen
  | Kellner_duerfen_nur_eigene_Stunden_eintragen
  | Kellner_duerfen_nur_eigene_Eintraege_loeschen
  | Eigenen_Account_nicht_loeschen

datatype page =
    TeamPage "user list"
  | ShiftsPage "shift list"
  | ReservationsPage "reservation list"
  | ReportsPage "shift_report list"
  | HoursPage "time_entry list" "user list"
  | DepositPage "clothing_deposit list" "user list"
  | UsersPage "user list"

datatype response =
    Redirect string
  | Render page
  | Unauthorized
  | Abort error

type_synonym result = "response \<times> flash list \<times> store"

text \<open>
  The functions of Python's and werkzeug's libraries that the handlers call are parameters
  of the model: \<open>None\<close> is the ValueError of the parser. \<open>date_of\<close> is
  \<open>datetime.date()\<close>.
\<close>

record env =
  py_int :: "string \<Rightarrow> int option"
  py_float :: "string \<Rightarrow> pyfloat option"
  fromisoformat :: "string \<Rightarrow> datetime option"
  date_of :: "datetime \<Rightarrow> pydate"
  generate_password_hash :: "string \<Rightarrow> string"

definition and_then :: "error + 'a \<Rightarrow> ('a \<Rightarrow> error + 'b) \<Rightarrow> error + 'b" where
  "and_then m f = (case m of Inl e \<Rightarrow> Inl e | Inr x \<Rightarrow> f x)"

definition form_item :: "request \<Rightarrow> string \<Rightarrow> error + string" where
  "form_item req k = (case form req k of None \<Rightarrow> Inl BadRequestKeyError | Some v \<Rightarrow> Inr v)"

definition form_get :: "request \<Rightarrow> string \<Rightarrow> string \<Rightarrow> string" where
  "form_get req k d = (case form req k of None \<Rightarrow> d | Some v \<Rightarrow> v)"

definition to_int :: "env \<Rightarrow> string \<Rightarrow> error + int" where
  "to_int env s = (case py_int env s of None \<Rightarrow> Inl ValueError | Some n \<Rightarrow> Inr n)"

definition to_float :: "env \<Rightarrow> string \<Rightarrow> error + pyfloat" where
  "to_float env s = (case py_float env s of None \<Rightarrow> Inl ValueError | Some x \<Rightarrow> Inr x)"

definition to_datetime :: "env \<Rightarrow> string \<Rightarrow> error + datetime" where
  "to_datetime env s = (case fromisoformat env s of None \<Rightarrow> Inl ValueError | Some t \<Rightarrow> Inr t)"

text \<open>
  The integers that the handlers take from the form (\<open>user_id\<close>, \<open>size\<close>) are Python
  integers of any magnitude; the columns they go to are \<open>db.Integer\<close>. \<open>sqlite_integer\<close>
  is the range that the commit accepts when it binds such a value.
\<close>

definition sqlite_integer :: "int \<Rightarrow> bool" where
  "sqlite_integer n = (- (2 ^ 63) \<le> n \<and> n < 2 ^ 63)"

text \<open>\<open>db.session.add(row); db.session.commit()\<close> for a row that takes the integer \<open>n\<close>
  from the form.\<close>

definition commit_integer :: "int \<Rightarrow> 'a \<Rightarrow> error + 'a" where
  "commit_integer n row = (if sqlite_integer n then Inr row else Inl OverflowError)"

text \<open>
  \<open>get_or_404(id)\<close> binds the id of the URL to its query. A stored primary key is in the
  range of the column, so an id outside the range names no row: the query raises
  OverflowError for it, and an id in the range that names no row gives 404.
\<close>

definition lookup_error :: "int \<Rightarrow> error" where
  "lookup_error ident = (if sqlite_integer ident then NotFound else OverflowError)"

text \<open>\<open>int(request.form["size"] or 2)\<close>: the key must be there; the empty string is falsy.\<close>

definition size_field :: "env \<Rightarrow> request \<Rightarrow> error + int" where
  "size_field env req =
     and_then (form_item req ''size'') (\<lambda>s. if s = [] then Inr 2 else to_int env s)"

text \<open>\<open>float(request.form.get(k, 0) or 0)\<close>: a missing key and the empty string both give
  \<open>float(0)\<close>.\<close>

definition float_field :: "env \<Rightarrow> request \<Rightarrow> string \<Rightarrow> error + pyfloat" where
  "float_field env req k =
     (case form req k of
        None \<Rightarrow> Inr (Finite 0)
      | Some s \<Rightarrow> if s = [] then Inr (Finite 0) else to_float env s)"

text \<open>\<open>datetime.fromisoformat(request.form[k])\<close>\<close>

definition datetime_field :: "env \<Rightarrow> request \<Rightarrow> string \<Rightarrow> error + datetime" where
  "datetime_field env req k = and_then (form_item req k) (to_datetime env)"

section \<open>Queries\<close>

text \<open>
  \<open>order_by\<close> sorts a table by a comparison; rows that compare equal keep their table
  order. \<open>desc\<close> and \<open>asc\<close> are the comparisons of one column, \<open>role_desc_username_asc\<close>
  the one of \<open>order_by(User.role.desc(), User.username.asc())\<close>. Strings compare
  bytewise, as SQLite's default collation does.
\<close>

fun insort_by :: "('a \<Rightarrow> 'a \<Rightarrow> bool) \<Rightarrow> 'a \<Rightarrow> 'a list \<Rightarrow> 'a list" where
  "insort_by le x [] = [x]"
| "insort_by le x (y # ys) = (if le x y then x # y # ys else y # insort_by le x ys)"

definition order_by :: "('a \<Rightarrow> 'a \<Rightarrow> bool) \<Rightarrow> 'a list \<Rightarrow> 'a list" where
  "order_by le xs = foldr (insort_by le) xs []"

definition desc :: "('a \<Rightarrow> 'k::linorder) \<Rightarrow> 'a \<Rightarrow> 'a \<Rightarrow> bool" where
  "desc f a b = (f b \<le> f a)"

definition asc :: "('a \<Rightarrow> 'k::linorder) \<Rightarrow> 'a \<Rightarrow> 'a \<Rightarrow> bool" where
  "asc f a b = (f a \<le> f b)"

definition role_desc_username_asc :: "user \<Rightarrow> user \<Rightarrow> bool" where
  "role_desc_username_asc a b =
     (u_role b < u_role a \<or> (u_role a = u_role b \<and> u_username a \<le> u_username b))"

section \<open>Decorators\<close>

text \<open>\<open>current_user\<close> is \<open>None\<close> for an anonymous request and the stored User row of the
  session otherwise. \<open>Unauthorized\<close> is the answer of \<open>login_manager.unauthorized()\<close>,
  which flashes a message of its own and redirects to the login view.
  The routes \<open>login\<close>, \<open>logout\<close> and \<open>dashboard\<close> write nothing to the database and
  list no rows; they are not part of the model.\<close>

definition login_required :: "user option \<Rightarrow> store \<Rightarrow> (user \<Rightarrow> result) \<Rightarrow> result" where
  "login_required current_user st fn =
     (case current_user of None \<Rightarrow> (Unauthorized, [], st) | Some u \<Rightarrow> fn u)"

definition role_required ::
  "string list \<Rightarrow> user option \<Rightarrow> store \<Rightarrow> (user \<Rightarrow> result) \<Rightarrow> result" where
  "role_required roles current_user st fn =
     (case current_user of
        None \<Rightarrow> (Unauthorized, [], st)
      | Some u \<Rightarrow>
          if u_role u \<notin> set roles then (Redirect ''dashboard'', [Keine_Berechtigung], st)
          else fn u)"

section \<open>Time entries\<close>

definition hours :: "env \<Rightarrow> user option \<Rightarrow> request \<Rightarrow> store \<Rightarrow> result" where
  "hours env current_user req st = login_required current_user st (\<lambda>u.
     if req_method req = POST then
       (case and_then (form_item req ''user_id'') (to_int env) of
          Inl e \<Rightarrow> (Abort e, [], st)
        | Inr user_id \<Rightarrow>
            if u_role u = ''waiter'' \<and> user_id \<noteq> u_id u then
              (Redirect ''hours'', [Kellner_duerfen_nur_eigene_Stunden_eintragen], st)
            else
              (case and_then (datetime_field env req ''start'') (\<lambda>start.
                    and_then (datetime_field env req ''end'') (\<lambda>end.
                    commit_integer user_id
                      \<lparr>t_id = next_id (map t_id (hours_tbl st)), t_user_id = Some user_id,
                         t_start = start, t_end = end,
                         t_note = form_get req ''note'' ''''\<rparr>)) of
                 Inl e \<Rightarrow> (Abort e, [], st)
               | Inr t \<Rightarrow> (Redirect ''hours'', [], st\<lparr>hours_tbl := hours_tbl st @ [t]\<rparr>)))
     else if u_role u = ''waiter'' then
       (Render (HoursPage
          (order_by (desc t_start) (filter (\<lambda>t. t_user_id t = Some (u_id u)) (hours_tbl st)))
          [u]), [], st)
     else
       (Render (HoursPage (order_by (desc t_start) (hours_tbl st))
          (order_by (asc u_username) (users_tbl st))), [], st))"

definition hours_delete :: "user option \<Rightarrow> int \<Rightarrow> store \<Rightarrow> result" where
  "hours_delete current_user ident st = login_required current_user st (\<lambda>u.
     case find (\<lambda>t. t_id t = ident) (hours_tbl st) of
       None \<Rightarrow> (Abort (lookup_error ident), [], st)
     | Some t \<Rightarrow>
         if u_role u = ''waiter'' \<and> t_user_id t \<noteq> Some (u_id u) then
           (Redirect ''hours'', [Kellner_duerfen_nur_eigene_Eintraege_loeschen], st)
         else if u_role u \<in> {''shift_lead'', ''manager''} \<or> t_user_id t = Some (u_id u) then
           (Redirect ''hours'', [], st\<lparr>hours_tbl := filter (\<lambda>x. t_id x \<noteq> ident) (hours_tbl st)\<rparr>)
         else (Redirect ''hours'', [], st))"

section \<open>Team directory\<close>

definition team :: "user option \<Rightarrow> store \<Rightarrow> result" where
  "team current_user st = login_required current_user st (\<lambda>u.
     (Render (TeamPage (order_by role_desc_username_asc (users_tbl st))), [], st))"

section \<open>Shifts\<close>

definition shifts :: "env \<Rightarrow> user option \<Rightarrow> request \<Rightarrow> store \<Rightarrow> result" where
  "shifts env current_user req st = login_required current_user st (\<lambda>u.
     if req_method req = POST then
       if u_role u \<notin> {''shift_lead'', ''manager''} then
         (Redirect ''shifts'', [Nur_Schichtleitung_Manager_duerfen_Schichten_anlegen], st)
       else
         (case and_then (form_item req ''employee'') (\<lambda>employee.
               and_then (datetime_field env req ''start'') (\<lambda>start.
               and_then (datetime_field env req ''end'') (\<lambda>end.
               Inr \<lparr>s_id = next_id (map s_id (shifts_tbl st)), s_employee = employee,
                    s_role = form_get req ''role'' '''', s_start = start, s_end = end\<rparr>))) of
            Inl e \<Rightarrow> (Abort e, [], st)
          | Inr s \<Rightarrow> (Redirect ''shifts'', [], st\<lparr>shifts_tbl := shifts_tbl st @ [s]\<rparr>))
     else (Render (ShiftsPage (order_by (desc s_start) (shifts_tbl st))), [], st))"

definition shifts_delete :: "user option \<Rightarrow> int \<Rightarrow> store \<Rightarrow> result" where
  "shifts_delete current_user ident st =
     login_required current_user st (\<lambda>_.
     role_required [''shift_lead'', ''manager''] current_user st (\<lambda>u.
       case find (\<lambda>s. s_id s = ident) (shifts_tbl st) of
         None \<Rightarrow> (Abort (lookup_error ident), [], st)
       | Some s \<Rightarrow>
           (Redirect ''shifts'', [],
            st\<lparr>shifts_tbl := filter (\<lambda>x. s_id x \<noteq> ident) (shifts_tbl st)\<rparr>)))"

section \<open>Reservations\<close>

definition reservations :: "env \<Rightarrow> user option \<Rightarrow> request \<Rightarrow> store \<Rightarrow> result" where
  "reservations env current_user req st =
     login_required current_user st (\<lambda>_.
     role_required [''shift_lead'', ''manager''] current_user st (\<lambda>u.
       if req_method req = POST then
         (case and_then (form_item req ''customer'') (\<lambda>customer.
               and_then (size_field env req) (\<lambda>size.
               and_then (datetime_field env req ''at'') (\<lambda>at'.
               commit_integer size
                 \<lparr>r_id = next_id (map r_id (reservations_tbl st)), r_customer = customer,
                    r_size = size, r_at = at', r_notes = form_get req ''notes'' ''''\<rparr>))) of
            Inl e \<Rightarrow> (Abort e, [], st)
          | Inr r \<Rightarrow>
              (Redirect ''reservations'', [],
               st\<lparr>reservations_tbl := reservations_tbl st @ [r]\<rparr>))
       else (Render (ReservationsPage (order_by (desc r_at) (reservations_tbl st))), [], st)))"

definition res_delete :: "user option \<Rightarrow> int \<Rightarrow> store \<Rightarrow> result" where
  "res_delete current_user ident st =
     login_required current_user st (\<lambda>_.
     role_required [''shift_lead'', ''manager''] current_user st (\<lambda>u.
       case find (\<lambda>r. r_id r = ident) (reservations_tbl st) of
         None \<Rightarrow> (Abort (lookup_error ident), [], st)
       | Some r \<Rightarrow>
           (Redirect ''reservations'', [],
            st\<lparr>reservations_tbl := filter (\<lambda>x. r_id x \<noteq> ident) (reservations_tbl st)\<rparr>)))"

section \<open>Shift reports\<close>

definition reports :: "env \<Rightarrow> user option \<Rightarrow> request \<Rightarrow> store \<Rightarrow> result" where
  "reports env current_user req st =
     login_required current_user st (\<lambda>_.
     role_required [''shift_lead'', ''manager''] current_user st (\<lambda>u.
       if req_method req = POST then
         (case and_then (datetime_field env req ''date'') (\<lambda>d.
               and_then (float_field env req ''revenue'') (\<lambda>revenue.
               Inr \<lparr>rep_id = next_id (map rep_id (reports_tbl st)), rep_date = date_of env d,
                    rep_lead_id = Some (u_id u), rep_revenue = revenue,
                    rep_issues = form_get req ''issues'' '''',
                    rep_notes = form_get req ''notes'' ''''\<rparr>)) of
            Inl e \<Rightarrow> (Abort e, [], st)
          | Inr rep \<Rightarrow> (Redirect ''reports'', [], st\<lparr>reports_tbl := reports_tbl st @ [rep]\<rparr>))
       else (Render (ReportsPage (order_by (desc rep_date) (reports_tbl st))), [], st)))"

definition reports_delete :: "user option \<Rightarrow> int \<Rightarrow> store \<Rightarrow> result" where
  "reports_delete current_user ident st =
     login_required current_user st (\<lambda>_.
     role_required [''shift_lead'', ''manager''] current_user st (\<lambda>u.
       case find (\<lambda>r. rep_id r = ident) (reports_tbl st) of
         None \<Rightarrow> (Abort (lookup_error ident), [], st)
       | Some r \<Rightarrow>
           (Redirect ''reports'', [],
            st\<lparr>reports_tbl := filter (\<lambda>x. rep_id x \<noteq> ident) (reports_tbl st)\<rparr>)))"

section \<open>Clothing deposits\<close>

definition deposit :: "env \<Rightarrow> user option \<Rightarrow> request \<Rightarrow> store \<Rightarrow> result" where
  "deposit env current_user req st =
     login_required current_user st (\<lambda>_.
     role_required [''manager''] current_user st (\<lambda>u.
       if req_method req = POST then
         (case and_then (and_then (form_item req ''user_id'') (to_int env)) (\<lambda>user_id.
               and_then (form_item req ''item'') (\<lambda>item.
               and_then (float_field env req ''amount'') (\<lambda>amount.
               and_then (datetime_field env req ''date'') (\<lambda>d.
               commit_integer user_id
                 \<lparr>d_id = next_id (map d_id (deposits_tbl st)), d_user_id = Some user_id,
                    d_item = item, d_size = form_get req ''size'' '''', d_amount = amount,
                    d_date = date_of env d, d_returned = (form req ''returned'' \<noteq> None),
                    d_notes = form_get req ''notes'' ''''\<rparr>)))) of
            Inl e \<Rightarrow> (Abort e, [], st)
          | Inr d \<Rightarrow> (Redirect ''deposit'', [], st\<lparr>deposits_tbl := deposits_tbl st @ [d]\<rparr>))
       else
         (Render (DepositPage (order_by (desc d_date) (deposits_tbl st))
            (order_by (asc u_username) (users_tbl st))), [], st)))"

definition deposit_toggle :: "user option \<Rightarrow> int \<Rightarrow> store \<Rightarrow> result" where
  "deposit_toggle current_user ident st =
     login_required current_user st (\<lambda>_.
     role_required [''manager''] current_user st (\<lambda>u.
       case find (\<lambda>d. d_id d = ident) (deposits_tbl st) of
         None \<Rightarrow> (Abort (lookup_error ident), [], st)
       | Some d \<Rightarrow>
           (Redirect ''deposit'', [],
            st\<lparr>deposits_tbl :=
                 map (\<lambda>x. if d_id x = ident then x\<lparr>d_returned := \<not> d_returned x\<rparr> else x)
                   (deposits_tbl st)\<rparr>)))"

definition deposit_delete :: "user option \<Rightarrow> int \<Rightarrow> store \<Rightarrow> result" where
  "deposit_delete current_user ident st =
     login_required current_user st (\<lambda>_.
     role_required [''manager''] current_user st (\<lambda>u.
       case find (\<lambda>d. d_id d = ident) (deposits_tbl st) of
         None \<Rightarrow> (Abort (lookup_error ident), [], st)
       | Some d \<Rightarrow>
           (Redirect ''deposit'', [],
            st\<lparr>deposits_tbl := filter (\<lambda>x. d_id x \<noteq> ident) (deposits_tbl st)\<rparr>)))"

section \<open>User management\<close>

text \<open>The commit of a User whose username is already stored breaks the unique constraint
  of the column.\<close>

definition users :: "env \<Rightarrow> user option \<Rightarrow> request \<Rightarrow> store \<Rightarrow> result" where
  "users env current_user req st =
     login_required current_user st (\<lambda>_.
     role_required [''manager''] current_user st (\<lambda>u.
       if req_method req = POST then
         (case and_then (form_item req ''username'') (\<lambda>username.
               and_then (form_item req ''password'') (\<lambda>password.
               if username \<in> set (map u_username (users_tbl st)) then Inl IntegrityError
               else
                 Inr \<lparr>u_id = next_id (map u_id (users_tbl st)), u_username = username,
                      u_full_name = form_get req ''full_name'' '''',
                      u_role = form_get req ''role'' ''waiter'',
                      u_password_hash = generate_password_hash env password\<rparr>)) of
            Inl e \<Rightarrow> (Abort e, [], st)
          | Inr x \<Rightarrow> (Redirect ''users'', [], st\<lparr>users_tbl := users_tbl st @ [x]\<rparr>))
       else (Render (UsersPage (order_by (asc u_username) (users_tbl st))), [], st)))"

definition users_delete :: "user option \<Rightarrow> int \<Rightarrow> store \<Rightarrow> result" where
  "users_delete current_user ident st =
     login_required current_user st (\<lambda>_.
     role_required [''manager''] current_user st (\<lambda>u.
       if ident = u_id u then (Redirect ''users'', [Eigenen_Account_nicht_loeschen], st)
       else
         (case find (\<lambda>x. u_id x = ident) (users_tbl st) of
            None \<Rightarrow> (Abort (lookup_error ident), [], st)
          | Some x \<Rightarrow>
              (Redirect ''users'', [],
               st\<lparr>users_tbl := filter (\<lambda>y. u_id y \<noteq> ident) (users_tbl st)\<rparr>))))"

section \<open>Provisioning\<close>

definition ensure :: "env \<Rightarrow> string \<Rightarrow> string \<Rightarrow> string \<Rightarrow> string \<Rightarrow> store \<Rightarrow> store" where
  "ensure env u p role name st =
     (if find (\<lambda>x. u_username x = u) (users_tbl st) = None then
        st\<lparr>users_tbl := users_tbl st @
             [\<lparr>u_id = next_id (map u_id (users_tbl st)), u_username = u, u_full_name = name,
               u_role = role, u_password_hash = generate_password_hash env p\<rparr>]\<rparr>
      else st)"

definition db_init :: "env \<Rightarrow> store \<Rightarrow> store" where
  "db_init env st =
     ensure env ''waiter'' ''waiter123'' ''waiter'' ''Kellner''
       (ensure env ''lead'' ''lead123'' ''shift_lead'' ''Schichtleiter''
         (ensure env ''admin'' ''admin123'' ''manager'' ''Betriebsleiter'' st))"

section \<open>Sample data\<close>

text \<open>
  A finite fragment of the library functions, enough to run the handlers on the requests
  below: the parsers read the listed texts and reject every other one, a timestamp is the
  number of minutes since 2024-01-01T00:00, and a date is its day. The users \<open>admin\<close>,
  \<open>lead\<close> and \<open>waiter\<close> are the accounts that \<open>db_init\<close> provisions on an empty
  store; \<open>chef\<close> and \<open>boss\<close> are accounts that a manager has created since.
\<close>

definition sample_env :: env where
  "sample_env = \<lparr>py_int = map_of [(''1'', 1), (''2'', 2), (''3'', 3), (''4'', 4), (''999'', 999),
        (''9223372036854775808'', 9223372036854775808)],
     py_float = map_of [(''12.5'', Finite 12.5)],
     fromisoformat = map_of [(''2024-01-01T09:00'', 540), (''2024-01-01T17:00'', 1020),
        (''2024-02-01T19:00'', 45780)],
     date_of = (\<lambda>t. t div 1440),
     generate_password_hash = (\<lambda>p. ''hash:'' @ p)\<rparr>"

definition admin_user :: user where
  "admin_user = \<lparr>u_id = 1, u_username = ''admin'', u_full_name = ''Betriebsleiter'',
     u_role = ''manager'', u_password_hash = ''hash:admin123''\<rparr>"

definition lead_user :: user where
  "lead_user = \<lparr>u_id = 2, u_username = ''lead'', u_full_name = ''Schichtleiter'',
     u_role = ''shift_lead'', u_password_hash = ''hash:lead123''\<rparr>"

definition waiter_user :: user where
  "waiter_user = \<lparr>u_id = 3, u_username = ''waiter'', u_full_name = ''Kellner'',
     u_role = ''waiter'', u_password_hash = ''hash:waiter123''\<rparr>"

definition seeded :: store where
  "seeded = empty_store\<lparr>users_tbl := [admin_user, lead_user, waiter_user]\<rparr>"

definition own_hours_request :: request where
  "own_hours_request = \<lparr>req_method = POST, form = [''user_id'' \<mapsto> ''3'',
     ''start'' \<mapsto> ''2024-01-01T09:00'', ''end'' \<mapsto> ''2024-01-01T17:00'']\<rparr>"

definition other_hours_request :: request where
  "other_hours_request = \<lparr>req_method = POST, form = [''user_id'' \<mapsto> ''1'',
     ''start'' \<mapsto> ''2024-01-01T09:00'', ''end'' \<mapsto> ''2024-01-01T17:00'']\<rparr>"

definition overflow_hours_request :: request where
  "overflow_hours_request = \<lparr>req_method = POST,
     form = [''user_id'' \<mapsto> ''9223372036854775808'',
       ''start'' \<mapsto> ''2024-01-01T09:00'', ''end'' \<mapsto> ''2024-01-01T17:00'']\<rparr>"

definition bad_own_hours_request :: request where
  "bad_own_hours_request = \<lparr>req_method = POST, form = [''user_id'' \<mapsto> ''3'',
     ''start'' \<mapsto> ''morgen frueh'', ''end'' \<mapsto> ''2024-01-01T17:00'']\<rparr>"

definition chef_user :: user where
  "chef_user = \<lparr>u_id = 4, u_username = ''chef'', u_full_name = ''Koch'',
     u_role = ''chef'', u_password_hash = ''hash:chef123''\<rparr>"

definition boss_user :: user where
  "boss_user = \<lparr>u_id = 5, u_username = ''boss'', u_full_name = ''Inhaber'',
     u_role = ''manager'', u_password_hash = ''hash:boss123''\<rparr>"

definition waiter_entry :: time_entry where
  "waiter_entry = \<lparr>t_id = 1, t_user_id = Some 3, t_start = 540, t_end = 1020, t_note = ''''\<rparr>"

definition lead_entry :: time_entry where
  "lead_entry = \<lparr>t_id = 2, t_user_id = Some 2, t_start = 540, t_end = 1020, t_note = ''''\<rparr>"

definition jacket_deposit :: clothing_deposit where
  "jacket_deposit = \<lparr>d_id = 1, d_user_id = Some 3, d_item = ''jacket'', d_size = ''M'',
     d_amount = Finite 0, d_date = 0, d_returned = False, d_notes = ''''\<rparr>"

definition staff_store :: store where
  "staff_store = empty_store\<lparr>
     users_tbl := [admin_user, lead_user, waiter_user, chef_user, boss_user],
     hours_tbl := [waiter_entry, lead_entry],
     deposits_tbl := [jacket_deposit]\<rparr>"

definition chef_request :: request where
  "chef_request = \<lparr>req_method = POST, form = [''username'' \<mapsto> ''chef'',
     ''full_name'' \<mapsto> ''Koch'', ''role'' \<mapsto> ''chef'', ''password'' \<mapsto> ''chef123'']\<rparr>"

definition no_size_request :: request where
  "no_size_request = \<lparr>req_method = POST, form = [''customer'' \<mapsto> ''Smith'',
     ''at'' \<mapsto> ''2024-02-01T19:00'']\<rparr>"

definition list_request :: request where
  "list_request = \<lparr>req_method = GET, form = Map.empty\<rparr>"

section \<open>Unreadable input\<close>

text \<open>
  A timestamp field that is present in the form and that \<open>fromisoformat\<close> rejects.
\<close>

definition unparseable :: "env \<Rightarrow> request \<Rightarrow> string \<Rightarrow> bool" where
  "unparseable env req k =
     (case form req k of None \<Rightarrow> False | Some s \<Rightarrow> fromisoformat env s = None)"

definition bad_shift_request :: request where
  "bad_shift_request = \<lparr>req_method = POST, form = [''employee'' \<mapsto> ''Anna'',
     ''start'' \<mapsto> ''morgen frueh'', ''end'' \<mapsto> ''2024-01-01T17:00'']\<rparr>"

definition bad_reservation_request :: request where
  "bad_reservation_request = \<lparr>req_method = POST, form = [''customer'' \<mapsto> ''Smith'',
     ''size'' \<mapsto> ''4'', ''at'' \<mapsto> ''01.02.2024 19 Uhr'']\<rparr>"

definition dangling_hours_request :: request where
  "dangling_hours_request = \<lparr>req_method = POST, form = [''user_id'' \<mapsto> ''999'',
     ''start'' \<mapsto> ''2024-01-01T09:00'', ''end'' \<mapsto> ''2024-01-01T17:00'']\<rparr>"

definition report_request :: request where
  "report_request = \<lparr>req_method = POST, form = [''date'' \<mapsto> ''2024-02-01T19:00'',
     ''revenue'' \<mapsto> '''', ''issues'' \<mapsto> ''keine'']\<rparr>"

section \<open>Routes and access checks\<close>

text \<open>
  The routes of the application that the access checks guard, with the argument that each
  takes: the request for the routes that accept GET and POST, the id for the POST-only
  routes. \<open>dispatch\<close> is the table of the \<open>@app.route\<close> decorators.
\<close>

datatype operation =
    Team
  | Shifts request
  | Shifts_delete int
  | Reservations request
  | Res_delete int
  | Reports request
  | Reports_delete int
  | Hours request
  | Hours_delete int
  | Deposit request
  | Deposit_toggle int
  | Deposit_delete int
  | Users request
  | Users_delete int

fun dispatch :: "env \<Rightarrow> user option \<Rightarrow> operation \<Rightarrow> store \<Rightarrow> result" where
  "dispatch env cu Team st = team cu st"
| "dispatch env cu (Shifts req) st = shifts env cu req st"
| "dispatch env cu (Shifts_delete i) st = shifts_delete cu i st"
| "dispatch env cu (Reservations req) st = reservations env cu req st"
| "dispatch env cu (Res_delete i) st = res_delete cu i st"
| "dispatch env cu (Reports req) st = reports env cu req st"
| "dispatch env cu (Reports_delete i) st = reports_delete cu i st"
| "dispatch env cu (Hours req) st = hours env cu req st"
| "dispatch env cu (Hours_delete i) st = hours_delete cu i st"
| "dispatch env cu (Deposit req) st = deposit env cu req st"
| "dispatch env cu (Deposit_toggle i) st = deposit_toggle cu i st"
| "dispatch env cu (Deposit_delete i) st = deposit_delete cu i st"
| "dispatch env cu (Users req) st = users env cu req st"
| "dispatch env cu (Users_delete i) st = users_delete cu i st"

text \<open>The roles of the \<open>@role_required\<close> decorator of a route, \<open>None\<close> for a route
  without one.\<close>

fun required_roles :: "operation \<Rightarrow> string list option" where
  "required_roles Team = None"
| "required_roles (Shifts req) = None"
| "required_roles (Shifts_delete i) = Some [''shift_lead'', ''manager'']"
| "required_roles (Reservations req) = Some [''shift_lead'', ''manager'']"
| "required_roles (Res_delete i) = Some [''shift_lead'', ''manager'']"
| "required_roles (Reports req) = Some [''shift_lead'', ''manager'']"
| "required_roles (Reports_delete i) = Some [''shift_lead'', ''manager'']"
| "required_roles (Hours req) = None"
| "required_roles (Hours_delete i) = None"
| "required_roles (Deposit req) = Some [''manager'']"
| "required_roles (Deposit_toggle i) = Some [''manager'']"
| "required_roles (Deposit_delete i) = Some [''manager'']"
| "required_roles (Users req) = Some [''manager'']"
| "required_roles (Users_delete i) = Some [''manager'']"

definition role_denied :: "user \<Rightarrow> operation \<Rightarrow> bool" where
  "role_denied u opn =
     (case required_roles opn of None \<Rightarrow> False | Some roles \<Rightarrow> u_role u \<notin> set roles)"

text \<open>
  The checks that a view function makes itself and answers with a notice: the role check
  of a shift creation, the ownership checks of a waiter on \<open>/hours\<close>, and the manager's
  deletion of the own account.
\<close>

fun check_denied :: "env \<Rightarrow> user \<Rightarrow> operation \<Rightarrow> store \<Rightarrow> bool" where
  "check_denied env u (Shifts req) st =
     (req_method req = POST \<and> u_role u \<notin> {''shift_lead'', ''manager''})"
| "check_denied env u (Hours req) st =
     (req_method req = POST \<and> u_role u = ''waiter''
      \<and> (case and_then (form_item req ''user_id'') (to_int env) of
            Inl e \<Rightarrow> False | Inr user_id \<Rightarrow> user_id \<noteq> u_id u))"
| "check_denied env u (Hours_delete i) st =
     (case find (\<lambda>t. t_id t = i) (hours_tbl st) of
        None \<Rightarrow> False
      | Some t \<Rightarrow> u_role u = ''waiter'' \<and> t_user_id t \<noteq> Some (u_id u))"
| "check_denied env u (Users_delete i) st = (u_role u = ''manager'' \<and> i = u_id u)"
| "check_denied env u opn st = False"

text \<open>The list view of the resource that a route belongs to.\<close>

fun list_page :: "operation \<Rightarrow> string" where
  "list_page Team = ''team''"
| "list_page (Shifts req) = ''shifts''"
| "list_page (Shifts_delete i) = ''shifts''"
| "list_page (Reservations req) = ''reservations''"
| "list_page (Res_delete i) = ''reservations''"
| "list_page (Reports req) = ''reports''"
| "list_page (Reports_delete i) = ''reports''"
| "list_page (Hours req) = ''hours''"
| "list_page (Hours_delete i) = ''hours''"
| "list_page (Deposit req) = ''deposit''"
| "list_page (Deposit_toggle i) = ''deposit''"
| "list_page (Deposit_delete i) = ''deposit''"
| "list_page (Users req) = ''users''"
| "list_page (Users_delete i) = ''users''"

definition reservation_request :: request where
  "reservation_request = \<lparr>req_method = POST, form = [''customer'' \<mapsto> ''Smith'',
     ''size'' \<mapsto> ''4'', ''at'' \<mapsto> ''2024-02-01T19:00'']\<rparr>"

section \<open>Properties\<close>

lemma db_init_seeded: "db_init sample_env empty_store = seeded"
  by (simp add: db_init_def ensure_def empty_store_def seeded_def sample_env_def next_id_def
      admin_user_def lead_user_def waiter_user_def)

subsection \<open>C1: who may create a time entry\<close>

lemma hours_post_user_id:
  assumes "req_method req = POST" "form req ''user_id'' = Some us" "py_int env us = Some uid"
  shows "hours env (Some u) req st =
     (if u_role u = ''waiter'' \<and> uid \<noteq> u_id u then
        (Redirect ''hours'', [Kellner_duerfen_nur_eigene_Stunden_eintragen], st)
      else
        (case and_then (datetime_field env req ''start'') (\<lambda>start.
              and_then (datetime_field env req ''end'') (\<lambda>end.
              commit_integer uid
                \<lparr>t_id = next_id (map t_id (hours_tbl st)), t_user_id = Some uid,
                   t_start = start, t_end = end, t_note = form_get req ''note'' ''''\<rparr>)) of
           Inl e \<Rightarrow> (Abort e, [], st)
         | Inr t \<Rightarrow> (Redirect ''hours'', [], st\<lparr>hours_tbl := hours_tbl st @ [t]\<rparr>)))"
  using assms
  by (simp add: hours_def login_required_def and_then_def form_item_def to_int_def)

lemma datetime_field_Some:
  "form req k = Some s \<Longrightarrow> fromisoformat env s = Some t \<Longrightarrow> datetime_field env req k = Inr t"
  by (simp add: datetime_field_def and_then_def form_item_def to_datetime_def)

text \<open>
  Claim C1, as the code has it. A POST to \<open>/hours\<close> whose \<open>user_id\<close> is present and
  readable. A waiter who names another user is denied, with a notice, a redirect to the
  hours list and an unchanged store; the source checks this before it reads the
  timestamps. When \<open>start\<close> and \<open>end\<close> are present and readable, every other request
  (a waiter who names the own id, a shift lead, a manager) creates the entry if the
  \<open>user_id\<close> fits the signed 64-bit INTEGER column, and ends in the OverflowError of the
  commit, with no row inserted, if it does not. So for a waiter an entry is created
  exactly when the \<open>user_id\<close> is the waiter's own, and for a shift lead or a manager for
  every \<open>user_id\<close> in the range of the column.
\<close>

theorem hours_create_policy:
  assumes post: "req_method req = POST"
    and uid: "form req ''user_id'' = Some us" "py_int env us = Some uid"
    and res: "hours env (Some u) req st = (resp, fl, st')"
  shows "(u_role u = ''waiter'' \<and> uid \<noteq> u_id u \<longrightarrow>
            st' = st \<and> resp = Redirect ''hours''
            \<and> fl = [Kellner_duerfen_nur_eigene_Stunden_eintragen])
       \<and> (form req ''start'' = Some ss \<and> fromisoformat env ss = Some start
            \<and> form req ''end'' = Some es \<and> fromisoformat env es = Some end' \<longrightarrow>
            (\<not> (u_role u = ''waiter'' \<and> uid \<noteq> u_id u) \<and> sqlite_integer uid \<longrightarrow>
               st' = st\<lparr>hours_tbl := hours_tbl st @
                       [\<lparr>t_id = next_id (map t_id (hours_tbl st)), t_user_id = Some uid,
                         t_start = start, t_end = end',
                         t_note = form_get req ''note'' ''''\<rparr>]\<rparr>
               \<and> resp = Redirect ''hours'' \<and> fl = [])
            \<and> (\<not> (u_role u = ''waiter'' \<and> uid \<noteq> u_id u) \<and> \<not> sqlite_integer uid \<longrightarrow>
               st' = st \<and> resp = Abort OverflowError \<and> fl = [])
            \<and> (u_role u = ''waiter'' \<and> sqlite_integer uid \<longrightarrow>
               (hours_tbl st' \<noteq> hours_tbl st \<longleftrightarrow> uid = u_id u)))"
proof -
  note h = hours_post_user_id [OF post uid, of u st]
  have c1: "u_role u = ''waiter'' \<and> uid \<noteq> u_id u \<longrightarrow>
            st' = st \<and> resp = Redirect ''hours''
            \<and> fl = [Kellner_duerfen_nur_eigene_Stunden_eintragen]"
    using h res by auto
  have c2: "form req ''start'' = Some ss \<and> fromisoformat env ss = Some start
            \<and> form req ''end'' = Some es \<and> fromisoformat env es = Some end' \<longrightarrow>
            (\<not> (u_role u = ''waiter'' \<and> uid \<noteq> u_id u) \<and> sqlite_integer uid \<longrightarrow>
               st' = st\<lparr>hours_tbl := hours_tbl st @
                       [\<lparr>t_id = next_id (map t_id (hours_tbl st)), t_user_id = Some uid,
                         t_start = start, t_end = end',
                         t_note = form_get req ''note'' ''''\<rparr>]\<rparr>
               \<and> resp = Redirect ''hours'' \<and> fl = [])
            \<and> (\<not> (u_role u = ''waiter'' \<and> uid \<noteq> u_id u) \<and> \<not> sqlite_integer uid \<longrightarrow>
               st' = st \<and> resp = Abort OverflowError \<and> fl = [])
            \<and> (u_role u = ''waiter'' \<and> sqlite_integer uid \<longrightarrow>
               (hours_tbl st' \<noteq> hours_tbl st \<longleftrightarrow> uid = u_id u))"
  proof
    assume t: "form req ''start'' = Some ss \<and> fromisoformat env ss = Some start
            \<and> form req ''end'' = Some es \<and> fromisoformat env es = Some end'"
    then have s: "datetime_field env req ''start'' = Inr start"
      and e: "datetime_field env req ''end'' = Inr end'"
      by (simp_all add: datetime_field_Some)
    show "(\<not> (u_role u = ''waiter'' \<and> uid \<noteq> u_id u) \<and> sqlite_integer uid \<longrightarrow>
               st' = st\<lparr>hours_tbl := hours_tbl st @
                       [\<lparr>t_id = next_id (map t_id (hours_tbl st)), t_user_id = Some uid,
                         t_start = start, t_end = end',
                         t_note = form_get req ''note'' ''''\<rparr>]\<rparr>
               \<and> resp = Redirect ''hours'' \<and> fl = [])
            \<and> (\<not> (u_role u = ''waiter'' \<and> uid \<noteq> u_id u) \<and> \<not> sqlite_integer uid \<longrightarrow>
               st' = st \<and> resp = Abort OverflowError \<and> fl = [])
            \<and> (u_role u = ''waiter'' \<and> sqlite_integer uid \<longrightarrow>
               (hours_tbl st' \<noteq> hours_tbl st \<longleftrightarrow> uid = u_id u))"
      using h res s e
      by (auto simp: and_then_def commit_integer_def split: if_splits)
  qed
  show ?thesis by (rule conjI [OF c1 c2])
qed

theorem hours_create_policy_witness:
  "req_method own_hours_request = POST
   \<and> form own_hours_request ''user_id'' = Some ''3'' \<and> py_int sample_env ''3'' = Some 3
   \<and> form own_hours_request ''start'' = Some ''2024-01-01T09:00''
   \<and> fromisoformat sample_env ''2024-01-01T09:00'' = Some 540
   \<and> form own_hours_request ''end'' = Some ''2024-01-01T17:00''
   \<and> fromisoformat sample_env ''2024-01-01T17:00'' = Some 1020
   \<and> u_role waiter_user = ''waiter'' \<and> u_id waiter_user = 3 \<and> sqlite_integer 3
   \<and> snd (snd (hours sample_env (Some waiter_user) own_hours_request seeded))
       = seeded\<lparr>hours_tbl := [\<lparr>t_id = 1, t_user_id = Some 3, t_start = 540, t_end = 1020,
            t_note = ''''\<rparr>]\<rparr>
   \<and> hours sample_env (Some waiter_user) other_hours_request seeded
       = (Redirect ''hours'', [Kellner_duerfen_nur_eigene_Stunden_eintragen], seeded)"
proof -
  obtain resp fl st' where
    r: "hours sample_env (Some waiter_user) own_hours_request seeded = (resp, fl, st')"
    by (metis prod_cases3)
  have h1: "req_method own_hours_request = POST" by (simp add: own_hours_request_def)
  have h2: "form own_hours_request ''user_id'' = Some ''3''" by (simp add: own_hours_request_def)
  have h3: "py_int sample_env ''3'' = Some 3" by (simp add: sample_env_def)
  have h4: "form own_hours_request ''start'' = Some ''2024-01-01T09:00''"
    by (simp add: own_hours_request_def)
  have h5: "fromisoformat sample_env ''2024-01-01T09:00'' = Some 540" by (simp add: sample_env_def)
  have h6: "form own_hours_request ''end'' = Some ''2024-01-01T17:00''"
    by (simp add: own_hours_request_def)
  have h7: "fromisoformat sample_env ''2024-01-01T17:00'' = Some 1020" by (simp add: sample_env_def)
  have w: "u_role waiter_user = ''waiter''" "u_id waiter_user = 3" by (simp_all add: waiter_user_def)
  have i: "sqlite_integer 3" by (simp add: sqlite_integer_def)
  have n: "form_get own_hours_request ''note'' '''' = ''''"
    by (simp add: form_get_def own_hours_request_def)
  have e: "hours_tbl seeded = []" by (simp add: seeded_def empty_store_def)
  have "st' = seeded\<lparr>hours_tbl := [\<lparr>t_id = 1, t_user_id = Some 3, t_start = 540, t_end = 1020,
            t_note = ''''\<rparr>]\<rparr>"
    using hours_create_policy [OF h1 h2 h3 r, of "''2024-01-01T09:00''" 540
        "''2024-01-01T17:00''" 1020] h4 h5 h6 h7 w i n e
    by (simp add: next_id_def)
  moreover have "hours sample_env (Some waiter_user) other_hours_request seeded
       = (Redirect ''hours'', [Kellner_duerfen_nur_eigene_Stunden_eintragen], seeded)"
  proof -
    obtain resp2 fl2 st2 where
      r2: "hours sample_env (Some waiter_user) other_hours_request seeded = (resp2, fl2, st2)"
      by (metis prod_cases3)
    have g1: "req_method other_hours_request = POST" by (simp add: other_hours_request_def)
    have g2: "form other_hours_request ''user_id'' = Some ''1''"
      by (simp add: other_hours_request_def)
    have g3: "py_int sample_env ''1'' = Some 1" by (simp add: sample_env_def)
    show ?thesis
      using hours_create_policy [OF g1 g2 g3 r2, THEN conjunct1] w r2 by simp
  qed
  ultimately show ?thesis using r h1 h2 h3 h4 h5 h6 h7 w i by simp
qed

text \<open>
  Claim C1 as stated lets a manager create an entry for any supplied \<open>user_id\<close>. For the
  \<open>user_id\<close> 9223372036854775808, which is 2 to the power 63, the commit raises
  OverflowError and no row is inserted.
\<close>

theorem hours_create_overflow_counterexample:
  "u_role admin_user = ''manager''
   \<and> form overflow_hours_request ''user_id'' = Some ''9223372036854775808''
   \<and> py_int sample_env ''9223372036854775808'' = Some 9223372036854775808
   \<and> hours sample_env (Some admin_user) overflow_hours_request seeded
       = (Abort OverflowError, [], seeded)"
  by (simp add: hours_def login_required_def and_then_def datetime_field_def form_item_def
      to_int_def to_datetime_def commit_integer_def sqlite_integer_def
      overflow_hours_request_def admin_user_def sample_env_def)

subsection \<open>C2: who may delete a time entry\<close>

lemma find_id_member:
  "find (\<lambda>x. f x = (i::int)) xs = Some y \<Longrightarrow> i \<in> set (map f xs)"
  by (induction xs) (auto split: if_splits)

lemma hours_delete_found:
  assumes found: "find (\<lambda>x. t_id x = ident) (hours_tbl st) = Some t"
  shows "hours_delete (Some u) ident st =
     (if u_role u = ''waiter'' \<and> t_user_id t \<noteq> Some (u_id u) then
        (Redirect ''hours'', [Kellner_duerfen_nur_eigene_Eintraege_loeschen], st)
      else if u_role u \<in> {''shift_lead'', ''manager''} \<or> t_user_id t = Some (u_id u) then
        (Redirect ''hours'', [], st\<lparr>hours_tbl := filter (\<lambda>x. t_id x \<noteq> ident) (hours_tbl st)\<rparr>)
      else (Redirect ''hours'', [], st))"
  using found by (simp add: hours_delete_def login_required_def)

text \<open>
  What \<open>hours_delete\<close> does with an existing time entry, for any role text: it removes
  the entry exactly when the actor's role is \<open>shift_lead\<close> or \<open>manager\<close> or the entry's
  \<open>user_id\<close> is the actor's id, and then nothing else in the store changes; in every other
  case the store is unchanged and the actor is redirected to the hours list. The notice of
  the rejection is flashed when the actor's role is \<open>waiter\<close>; the role column is free
  text, and for an actor whose role is none of the three the theorem says nothing about a
  notice.
\<close>

theorem hours_delete_policy:
  assumes found: "find (\<lambda>x. t_id x = ident) (hours_tbl st) = Some t"
    and res: "hours_delete (Some u) ident st = (resp, fl, st')"
  shows "(ident \<notin> set (map t_id (hours_tbl st')) \<longleftrightarrow>
            u_role u \<in> {''shift_lead'', ''manager''} \<or> t_user_id t = Some (u_id u))
       \<and> (u_role u \<in> {''shift_lead'', ''manager''} \<or> t_user_id t = Some (u_id u) \<longrightarrow>
            st' = st\<lparr>hours_tbl := filter (\<lambda>x. t_id x \<noteq> ident) (hours_tbl st)\<rparr>
            \<and> resp = Redirect ''hours'' \<and> fl = [])
       \<and> (\<not> (u_role u \<in> {''shift_lead'', ''manager''} \<or> t_user_id t = Some (u_id u)) \<longrightarrow>
            st' = st \<and> resp = Redirect ''hours'')
       \<and> (u_role u = ''waiter'' \<and> t_user_id t \<noteq> Some (u_id u) \<longrightarrow>
            fl = [Kellner_duerfen_nur_eigene_Eintraege_loeschen])"
proof (cases "u_role u \<in> {''shift_lead'', ''manager''} \<or> t_user_id t = Some (u_id u)")
  case True
  then have nw: "\<not> (u_role u = ''waiter'' \<and> t_user_id t \<noteq> Some (u_id u))" by auto
  with True res hours_delete_found [OF found, of u]
  have r: "st' = st\<lparr>hours_tbl := filter (\<lambda>x. t_id x \<noteq> ident) (hours_tbl st)\<rparr>"
    "resp = Redirect ''hours''" "fl = []"
    by simp_all
  have gone: "ident \<notin> set (map t_id (hours_tbl st'))" by (auto simp: r(1))
  have c1: "(ident \<notin> set (map t_id (hours_tbl st'))) \<longleftrightarrow>
      (u_role u \<in> {''shift_lead'', ''manager''} \<or> t_user_id t = Some (u_id u))"
    using gone True by simp
  have c2: "u_role u \<in> {''shift_lead'', ''manager''} \<or> t_user_id t = Some (u_id u) \<longrightarrow>
      st' = st\<lparr>hours_tbl := filter (\<lambda>x. t_id x \<noteq> ident) (hours_tbl st)\<rparr>
      \<and> resp = Redirect ''hours'' \<and> fl = []"
    using r by simp
  have c3: "\<not> (u_role u \<in> {''shift_lead'', ''manager''} \<or> t_user_id t = Some (u_id u)) \<longrightarrow>
      st' = st \<and> resp = Redirect ''hours''"
    using True by simp
  have c4: "u_role u = ''waiter'' \<and> t_user_id t \<noteq> Some (u_id u) \<longrightarrow>
      fl = [Kellner_duerfen_nur_eigene_Eintraege_loeschen]"
    using nw by blast
  show ?thesis by (rule conjI [OF c1 conjI [OF c2 conjI [OF c3 c4]]])
next
  case False
  have mem: "ident \<in> set (map t_id (hours_tbl st))"
    using found by (rule find_id_member)
  from False res hours_delete_found [OF found, of u]
  have r: "st' = st" "resp = Redirect ''hours''"
    "u_role u = ''waiter'' \<longrightarrow> fl = [Kellner_duerfen_nur_eigene_Eintraege_loeschen]"
    by (simp_all split: if_splits)
  have c1: "(ident \<notin> set (map t_id (hours_tbl st'))) \<longleftrightarrow>
      (u_role u \<in> {''shift_lead'', ''manager''} \<or> t_user_id t = Some (u_id u))"
    using mem False r(1) by simp
  have c2: "u_role u \<in> {''shift_lead'', ''manager''} \<or> t_user_id t = Some (u_id u) \<longrightarrow>
      st' = st\<lparr>hours_tbl := filter (\<lambda>x. t_id x \<noteq> ident) (hours_tbl st)\<rparr>
      \<and> resp = Redirect ''hours'' \<and> fl = []"
    using False by simp
  have c3: "\<not> (u_role u \<in> {''shift_lead'', ''manager''} \<or> t_user_id t = Some (u_id u)) \<longrightarrow>
      st' = st \<and> resp = Redirect ''hours''"
    using r by simp
  have c4: "u_role u = ''waiter'' \<and> t_user_id t \<noteq> Some (u_id u) \<longrightarrow>
      fl = [Kellner_duerfen_nur_eigene_Eintraege_loeschen]"
    using r(3) by blast
  show ?thesis by (rule conjI [OF c1 conjI [OF c2 conjI [OF c3 c4]]])
qed

theorem hours_delete_policy_witness:
  "find (\<lambda>x. t_id x = 1) (hours_tbl staff_store) = Some waiter_entry
   \<and> t_user_id waiter_entry = Some (u_id waiter_user)
   \<and> hours_delete (Some waiter_user) 1 staff_store
       = (Redirect ''hours'', [], staff_store\<lparr>hours_tbl := [lead_entry]\<rparr>)
   \<and> find (\<lambda>x. t_id x = 2) (hours_tbl staff_store) = Some lead_entry
   \<and> u_role waiter_user = ''waiter'' \<and> t_user_id lead_entry \<noteq> Some (u_id waiter_user)
   \<and> hours_delete (Some waiter_user) 2 staff_store
       = (Redirect ''hours'', [Kellner_duerfen_nur_eigene_Eintraege_loeschen], staff_store)"
proof -
  have f1: "find (\<lambda>x. t_id x = 1) (hours_tbl staff_store) = Some waiter_entry"
    by (simp add: staff_store_def waiter_entry_def)
  have f2: "find (\<lambda>x. t_id x = 2) (hours_tbl staff_store) = Some lead_entry"
    by (simp add: staff_store_def waiter_entry_def lead_entry_def)
  have own: "t_user_id waiter_entry = Some (u_id waiter_user)"
    by (simp add: waiter_entry_def waiter_user_def)
  have other: "u_role waiter_user = ''waiter''" "t_user_id lead_entry \<noteq> Some (u_id waiter_user)"
    "u_role waiter_user \<notin> {''shift_lead'', ''manager''}"
    by (simp_all add: lead_entry_def waiter_user_def)
  have flt: "filter (\<lambda>x. t_id x \<noteq> 1) (hours_tbl staff_store) = [lead_entry]"
    by (simp add: staff_store_def waiter_entry_def lead_entry_def)
  obtain resp1 fl1 st1 where
    r1: "hours_delete (Some waiter_user) 1 staff_store = (resp1, fl1, st1)"
    by (metis prod_cases3)
  obtain resp2 fl2 st2 where
    r2: "hours_delete (Some waiter_user) 2 staff_store = (resp2, fl2, st2)"
    by (metis prod_cases3)
  have a: "hours_delete (Some waiter_user) 1 staff_store
       = (Redirect ''hours'', [], staff_store\<lparr>hours_tbl := [lead_entry]\<rparr>)"
    using hours_delete_policy [OF f1 r1] own r1 flt by simp
  have b: "hours_delete (Some waiter_user) 2 staff_store
       = (Redirect ''hours'', [Kellner_duerfen_nur_eigene_Eintraege_loeschen], staff_store)"
    using hours_delete_policy [OF f2 r2] other r2 by simp
  show ?thesis using f1 f2 own other a b by simp
qed

text \<open>
  Claim C2 says that every deletion that is not allowed is answered with a user-visible
  rejection. \<open>hours_delete\<close> flashes its notice under \<open>role == "waiter"\<close> only, and the
  role column is free text (see C3): the chef, who does not own entry 1 and is neither shift
  lead nor manager, is sent back to the hours list without any notice.
\<close>

theorem hours_delete_unknown_role_silent:
  "hours_tbl staff_store = [waiter_entry, lead_entry] \<and> t_id waiter_entry = 1
   \<and> u_role chef_user \<noteq> ''shift_lead'' \<and> u_role chef_user \<noteq> ''manager''
   \<and> t_user_id waiter_entry \<noteq> Some (u_id chef_user)
   \<and> hours_delete (Some chef_user) 1 staff_store = (Redirect ''hours'', [], staff_store)"
  by (simp add: hours_delete_def login_required_def staff_store_def waiter_entry_def
      lead_entry_def chef_user_def)

subsection \<open>C5: deleting users\<close>

lemma users_delete_self:
  "users_delete (Some u) (u_id u) st =
     (if u_role u = ''manager'' then (Redirect ''users'', [Eigenen_Account_nicht_loeschen], st)
      else (Redirect ''dashboard'', [Keine_Berechtigung], st))"
  by (simp add: users_delete_def login_required_def role_required_def)

lemma users_delete_other:
  "u_role m = ''manager'' \<Longrightarrow> ident \<noteq> u_id m \<Longrightarrow>
   find (\<lambda>x. u_id x = ident) (users_tbl st) = Some x \<Longrightarrow>
   users_delete (Some m) ident st =
     (Redirect ''users'', [], st\<lparr>users_tbl := filter (\<lambda>y. u_id y \<noteq> ident) (users_tbl st)\<rparr>)"
  by (simp add: users_delete_def login_required_def role_required_def)

text \<open>
  Claim C5. \<open>users_delete\<close> on the actor's own id is denied for every role and leaves the
  store as it is: a manager gets the notice "Eigenen Account nicht loeschen" and the users
  list, every other role the notice "Keine Berechtigung" and the dashboard. A manager who
  deletes another stored user, of whatever role, removes that user.
\<close>

theorem users_delete_policy:
  "users_delete (Some u) (u_id u) st =
     (Redirect (if u_role u = ''manager'' then ''users'' else ''dashboard''),
      [if u_role u = ''manager'' then Eigenen_Account_nicht_loeschen else Keine_Berechtigung],
      st)
   \<and> (u_role m = ''manager'' \<and> ident \<noteq> u_id m
        \<and> find (\<lambda>x. u_id x = ident) (users_tbl st) = Some x \<longrightarrow>
        users_delete (Some m) ident st =
          (Redirect ''users'', [],
           st\<lparr>users_tbl := filter (\<lambda>y. u_id y \<noteq> ident) (users_tbl st)\<rparr>)
        \<and> ident \<notin> set (map u_id (filter (\<lambda>y. u_id y \<noteq> ident) (users_tbl st))))"
proof -
  have a: "users_delete (Some u) (u_id u) st =
     (Redirect (if u_role u = ''manager'' then ''users'' else ''dashboard''),
      [if u_role u = ''manager'' then Eigenen_Account_nicht_loeschen else Keine_Berechtigung],
      st)"
    by (simp add: users_delete_self)
  have g: "ident \<notin> set (map u_id (filter (\<lambda>y. u_id y \<noteq> ident) (users_tbl st)))"
    by auto
  have b: "u_role m = ''manager'' \<and> ident \<noteq> u_id m
        \<and> find (\<lambda>x. u_id x = ident) (users_tbl st) = Some x \<longrightarrow>
        users_delete (Some m) ident st =
          (Redirect ''users'', [],
           st\<lparr>users_tbl := filter (\<lambda>y. u_id y \<noteq> ident) (users_tbl st)\<rparr>)
        \<and> ident \<notin> set (map u_id (filter (\<lambda>y. u_id y \<noteq> ident) (users_tbl st)))"
    using users_delete_other [of m ident st x] g by blast
  show ?thesis by (rule conjI [OF a b])
qed

theorem users_delete_policy_witness:
  "u_role admin_user = ''manager'' \<and> 5 \<noteq> u_id admin_user
   \<and> find (\<lambda>x. u_id x = 5) (users_tbl staff_store) = Some boss_user
   \<and> u_role boss_user = ''manager''
   \<and> users_delete (Some admin_user) 5 staff_store
       = (Redirect ''users'', [],
          staff_store\<lparr>users_tbl := [admin_user, lead_user, waiter_user, chef_user]\<rparr>)
   \<and> users_delete (Some admin_user) (u_id admin_user) staff_store
       = (Redirect ''users'', [Eigenen_Account_nicht_loeschen], staff_store)"
proof -
  have m: "u_role admin_user = ''manager''" "5 \<noteq> u_id admin_user"
    "u_role boss_user = ''manager''"
    by (simp_all add: admin_user_def boss_user_def)
  have f: "find (\<lambda>x. u_id x = 5) (users_tbl staff_store) = Some boss_user"
    by (simp add: staff_store_def admin_user_def lead_user_def waiter_user_def chef_user_def
        boss_user_def)
  have flt: "filter (\<lambda>y. u_id y \<noteq> 5) (users_tbl staff_store)
       = [admin_user, lead_user, waiter_user, chef_user]"
    by (simp add: staff_store_def admin_user_def lead_user_def waiter_user_def chef_user_def
        boss_user_def)
  show ?thesis
    using users_delete_policy
      [where u = admin_user and st = staff_store and m = admin_user and ident = 5
         and x = boss_user]
      m f flt
    by simp
qed

subsection \<open>C10: toggling a deposit\<close>

lemma toggle_toggle:
  "map (\<lambda>x. if d_id x = i then x\<lparr>d_returned := \<not> d_returned x\<rparr> else x)
     (map (\<lambda>x. if d_id x = i then x\<lparr>d_returned := \<not> d_returned x\<rparr> else x) xs) = xs"
  by (induction xs) auto

lemma find_toggle:
  "find (\<lambda>x. d_id x = i) xs = Some d \<Longrightarrow>
   find (\<lambda>x. d_id x = i)
     (map (\<lambda>x. if d_id x = i then x\<lparr>d_returned := \<not> d_returned x\<rparr> else x) xs)
   = Some (d\<lparr>d_returned := \<not> d_returned d\<rparr>)"
  by (induction xs) (auto split: if_splits)

lemma deposit_toggle_manager:
  "u_role u = ''manager'' \<Longrightarrow> find (\<lambda>x. d_id x = ident) (deposits_tbl st) = Some d \<Longrightarrow>
   deposit_toggle (Some u) ident st =
     (Redirect ''deposit'', [],
      st\<lparr>deposits_tbl :=
           map (\<lambda>x. if d_id x = ident then x\<lparr>d_returned := \<not> d_returned x\<rparr> else x)
             (deposits_tbl st)\<rparr>)"
  by (simp add: deposit_toggle_def login_required_def role_required_def)

lemma deposit_toggle_other:
  "u_role u \<noteq> ''manager'' \<Longrightarrow>
   deposit_toggle (Some u) ident st = (Redirect ''dashboard'', [Keine_Berechtigung], st)"
  by (simp add: deposit_toggle_def login_required_def role_required_def)

text \<open>
  Claim C10. For an existing clothing deposit, a manager's toggle negates the
  \<open>returned\<close> flag of the record and a second toggle gives back the store of before the
  first, so the flag has its original value; for an actor of any other role the toggle is
  refused and the store is unchanged.
\<close>

theorem deposit_toggle_twice:
  assumes found: "find (\<lambda>x. d_id x = ident) (deposits_tbl st) = Some d"
    and res: "deposit_toggle (Some u) ident st = (resp, fl, st1)"
  shows "(u_role u = ''manager'' \<longrightarrow>
            find (\<lambda>x. d_id x = ident) (deposits_tbl st1)
              = Some (d\<lparr>d_returned := \<not> d_returned d\<rparr>)
            \<and> resp = Redirect ''deposit'' \<and> fl = []
            \<and> deposit_toggle (Some u) ident st1 = (Redirect ''deposit'', [], st))
       \<and> (u_role u \<noteq> ''manager'' \<longrightarrow>
            st1 = st \<and> resp = Redirect ''dashboard'' \<and> fl = [Keine_Berechtigung])"
proof (cases "u_role u = ''manager''")
  case True
  have st1: "st1 = st\<lparr>deposits_tbl :=
       map (\<lambda>x. if d_id x = ident then x\<lparr>d_returned := \<not> d_returned x\<rparr> else x)
         (deposits_tbl st)\<rparr>"
    and r: "resp = Redirect ''deposit''" "fl = []"
    using res deposit_toggle_manager [OF True found] by simp_all
  have f1: "find (\<lambda>x. d_id x = ident) (deposits_tbl st1)
      = Some (d\<lparr>d_returned := \<not> d_returned d\<rparr>)"
    using find_toggle [OF found] by (simp add: st1)
  have tt: "st1\<lparr>deposits_tbl :=
       map (\<lambda>x. if d_id x = ident then x\<lparr>d_returned := \<not> d_returned x\<rparr> else x)
         (deposits_tbl st1)\<rparr> = st"
    unfolding st1 by (simp add: toggle_toggle del: map_map)
  have again: "deposit_toggle (Some u) ident st1 = (Redirect ''deposit'', [], st)"
    by (simp only: deposit_toggle_manager [OF True f1] tt)
  show ?thesis using True f1 r again by simp
next
  case False
  then show ?thesis using res deposit_toggle_other [OF False, of ident st] by simp
qed

theorem deposit_toggle_twice_witness:
  "find (\<lambda>x. d_id x = 1) (deposits_tbl staff_store) = Some jacket_deposit
   \<and> u_role admin_user = ''manager'' \<and> d_returned jacket_deposit = False
   \<and> deposit_toggle (Some admin_user) 1 staff_store
       = (Redirect ''deposit'', [],
          staff_store\<lparr>deposits_tbl := [jacket_deposit\<lparr>d_returned := True\<rparr>]\<rparr>)
   \<and> deposit_toggle (Some admin_user) 1
         (staff_store\<lparr>deposits_tbl := [jacket_deposit\<lparr>d_returned := True\<rparr>]\<rparr>)
       = (Redirect ''deposit'', [], staff_store)"
proof -
  have f: "find (\<lambda>x. d_id x = 1) (deposits_tbl staff_store) = Some jacket_deposit"
    by (simp add: staff_store_def jacket_deposit_def)
  have m: "u_role admin_user = ''manager''" by (simp add: admin_user_def)
  have d: "d_returned jacket_deposit = False" by (simp add: jacket_deposit_def)
  have r: "deposit_toggle (Some admin_user) 1 staff_store
       = (Redirect ''deposit'', [],
          staff_store\<lparr>deposits_tbl := [jacket_deposit\<lparr>d_returned := True\<rparr>]\<rparr>)"
    using f m
    by (simp add: deposit_toggle_def login_required_def role_required_def)
      (simp add: staff_store_def jacket_deposit_def)
  have "deposit_toggle (Some admin_user) 1
         (staff_store\<lparr>deposits_tbl := [jacket_deposit\<lparr>d_returned := True\<rparr>]\<rparr>)
       = (Redirect ''deposit'', [], staff_store)"
    using deposit_toggle_twice [OF f r] m by simp
  then show ?thesis using f m d r by simp
qed

subsection \<open>C3: the role of a stored user\<close>

text \<open>
  Claim C3 says that no stored user has a role outside \<open>waiter\<close>, \<open>shift_lead\<close>,
  \<open>manager\<close>. The handler \<open>users\<close> stores the text of the \<open>role\<close> field as it comes:
  on the provisioned store, the manager's request to create a user with role \<open>chef\<close> is
  accepted and the user is stored with that role.
\<close>

theorem users_create_stores_any_role:
  "users sample_env (Some admin_user) chef_request seeded
     = (Redirect ''users'', [], seeded\<lparr>users_tbl := [admin_user, lead_user, waiter_user, chef_user]\<rparr>)
   \<and> u_role chef_user \<noteq> ''waiter'' \<and> u_role chef_user \<noteq> ''shift_lead''
   \<and> u_role chef_user \<noteq> ''manager''"
  by (simp add: users_def login_required_def role_required_def and_then_def form_item_def
      form_get_def chef_request_def seeded_def empty_store_def admin_user_def lead_user_def
      waiter_user_def chef_user_def sample_env_def next_id_def)

subsection \<open>C7: defaults of the numeric fields\<close>

text \<open>The revenue and the amount are 0 when the field is missing or empty, and the party
  size is 2 when the field is empty.\<close>

lemma float_field_default:
  "form req k = None \<or> form req k = Some '''' \<Longrightarrow> float_field env req k = Inr (Finite 0)"
  by (auto simp: float_field_def)

lemma size_field_blank: "form req ''size'' = Some '''' \<Longrightarrow> size_field env req = Inr 2"
  by (simp add: size_field_def and_then_def form_item_def)

text \<open>
  Claim C7 says that a missing party size defaults to 2. \<open>reservations\<close> reads the field
  with \<open>request.form["size"]\<close>: on a request without it the handler ends in
  BadRequestKeyError and stores nothing.
\<close>

theorem reservations_without_size_is_bad_request:
  "form no_size_request ''size'' = None
   \<and> reservations sample_env (Some lead_user) no_size_request seeded
       = (Abort BadRequestKeyError, [], seeded)"
  by (simp add: reservations_def login_required_def role_required_def and_then_def
      form_item_def size_field_def no_size_request_def lead_user_def)

subsection \<open>C6: a timestamp that cannot be read\<close>

lemma and_then_Inl: "and_then (Inl e) f = Inl e"
  by (simp add: and_then_def)

lemma and_then_Inr: "and_then (Inr x) f = f x"
  by (simp add: and_then_def)

lemma form_item_eq:
  "form_item req k = (case form req k of None \<Rightarrow> Inl BadRequestKeyError | Some v \<Rightarrow> Inr v)"
  by (simp add: form_item_def)

lemma datetime_field_unparseable:
  "unparseable env req k \<Longrightarrow> datetime_field env req k = Inl ValueError"
  by (auto simp: datetime_field_def and_then_def form_item_def to_datetime_def unparseable_def
      split: option.splits)

lemma datetime_field_absent:
  "form req k = None \<Longrightarrow> datetime_field env req k = Inl BadRequestKeyError"
  by (simp add: datetime_field_def and_then_def form_item_def)

lemma datetime_field_readable:
  "\<not> unparseable env req k \<Longrightarrow> form req k \<noteq> None \<Longrightarrow> \<exists>t. datetime_field env req k = Inr t"
  by (auto simp: datetime_field_def and_then_def form_item_def to_datetime_def unparseable_def
      split: option.splits)

lemma size_field_present:
  "form req ''size'' \<noteq> None \<Longrightarrow>
   size_field env req = Inl ValueError \<or> (\<exists>n. size_field env req = Inr n)"
  by (auto simp: size_field_def and_then_def form_item_def to_int_def split: option.splits)

lemma float_field_cases:
  "float_field env req k = Inl ValueError \<or> (\<exists>x. float_field env req k = Inr x)"
  by (auto simp: float_field_def to_float_def split: option.splits)

lemma shifts_unparseable:
  assumes "req_method req = POST" "u_role u \<in> {''shift_lead'', ''manager''}"
    and bad: "unparseable env req ''start'' \<or> unparseable env req ''end''"
  shows "shifts env (Some u) req st =
     (Abort (if form req ''employee'' = None
               \<or> (\<not> unparseable env req ''start'' \<and> form req ''start'' = None)
             then BadRequestKeyError else ValueError), [], st)"
proof -
  have s: "shifts env (Some u) req st =
     (case and_then (form_item req ''employee'') (\<lambda>employee.
           and_then (datetime_field env req ''start'') (\<lambda>start.
           and_then (datetime_field env req ''end'') (\<lambda>end.
           Inr \<lparr>s_id = next_id (map s_id (shifts_tbl st)), s_employee = employee,
                s_role = form_get req ''role'' '''', s_start = start, s_end = end\<rparr>))) of
        Inl e \<Rightarrow> (Abort e, [], st)
      | Inr s \<Rightarrow> (Redirect ''shifts'', [], st\<lparr>shifts_tbl := shifts_tbl st @ [s]\<rparr>))"
    using assms(1,2) by (auto simp: shifts_def login_required_def)
  show ?thesis
  proof (cases "form req ''employee''")
    case None
    then show ?thesis by (simp add: s form_item_eq and_then_Inl)
  next
    case (Some employee)
    show ?thesis
    proof (cases "unparseable env req ''start''")
      case True
      with Some show ?thesis
        by (simp add: s form_item_eq and_then_Inl and_then_Inr datetime_field_unparseable)
    next
      case False
      with bad have e: "unparseable env req ''end''" by simp
      show ?thesis
      proof (cases "form req ''start'' = None")
        case True
        with Some False show ?thesis
          by (simp add: s form_item_eq and_then_Inl and_then_Inr datetime_field_absent)
      next
        case present: False
        from datetime_field_readable [OF False present]
        obtain t where "datetime_field env req ''start'' = Inr t" by blast
        with Some False present e show ?thesis
          by (simp add: s form_item_eq and_then_Inl and_then_Inr datetime_field_unparseable)
      qed
    qed
  qed
qed

lemma reservations_unparseable:
  assumes "req_method req = POST" "u_role u \<in> {''shift_lead'', ''manager''}"
    and bad: "unparseable env req ''at''"
  shows "reservations env (Some u) req st =
     (Abort (if form req ''customer'' = None \<or> form req ''size'' = None
             then BadRequestKeyError else ValueError), [], st)"
proof -
  have s: "reservations env (Some u) req st =
     (case and_then (form_item req ''customer'') (\<lambda>customer.
           and_then (size_field env req) (\<lambda>size.
           and_then (datetime_field env req ''at'') (\<lambda>at'.
           commit_integer size
             \<lparr>r_id = next_id (map r_id (reservations_tbl st)), r_customer = customer,
                r_size = size, r_at = at', r_notes = form_get req ''notes'' ''''\<rparr>))) of
        Inl e \<Rightarrow> (Abort e, [], st)
      | Inr r \<Rightarrow>
          (Redirect ''reservations'', [],
           st\<lparr>reservations_tbl := reservations_tbl st @ [r]\<rparr>))"
    using assms(1,2) by (auto simp: reservations_def login_required_def role_required_def)
  show ?thesis
  proof (cases "form req ''customer''")
    case None
    then show ?thesis by (simp add: s form_item_eq and_then_Inl)
  next
    case (Some customer)
    show ?thesis
    proof (cases "form req ''size'' = None")
      case True
      with Some show ?thesis
        by (simp add: s form_item_eq and_then_Inl and_then_Inr size_field_def)
    next
      case False
      from size_field_present [OF False, of env] Some False bad show ?thesis
        by (auto simp: s form_item_eq and_then_Inl and_then_Inr datetime_field_unparseable)
    qed
  qed
qed

lemma reports_unparseable:
  assumes "req_method req = POST" "u_role u \<in> {''shift_lead'', ''manager''}"
    and "unparseable env req ''date''"
  shows "reports env (Some u) req st = (Abort ValueError, [], st)"
  using assms datetime_field_unparseable [of env req "''date''"]
  by (auto simp: reports_def login_required_def role_required_def and_then_Inl)

lemma hours_unparseable:
  assumes post: "req_method req = POST"
    and ok: "\<not> check_denied env u (Hours req) st"
    and bad: "unparseable env req ''start'' \<or> unparseable env req ''end''"
  shows "hours env (Some u) req st =
     (Abort (case form req ''user_id'' of
               None \<Rightarrow> BadRequestKeyError
             | Some s \<Rightarrow>
                 (case py_int env s of
                    None \<Rightarrow> ValueError
                  | Some user_id \<Rightarrow>
                      if \<not> unparseable env req ''start'' \<and> form req ''start'' = None
                      then BadRequestKeyError else ValueError)), [], st)"
proof (cases "form req ''user_id''")
  case None
  with post show ?thesis
    by (simp add: hours_def login_required_def form_item_eq and_then_Inl)
next
  case (Some s)
  show ?thesis
  proof (cases "py_int env s")
    case None
    with post Some show ?thesis
      by (simp add: hours_def login_required_def form_item_eq and_then_Inr to_int_def)
  next
    case (Some uid)
    note i = \<open>form req ''user_id'' = Some s\<close> Some
    from ok post i have nd: "\<not> (u_role u = ''waiter'' \<and> uid \<noteq> u_id u)"
      by (simp add: form_item_eq and_then_Inr to_int_def)
    have h: "hours env (Some u) req st =
        (case and_then (datetime_field env req ''start'') (\<lambda>start.
              and_then (datetime_field env req ''end'') (\<lambda>end.
              commit_integer uid
                \<lparr>t_id = next_id (map t_id (hours_tbl st)), t_user_id = Some uid,
                   t_start = start, t_end = end, t_note = form_get req ''note'' ''''\<rparr>)) of
           Inl e \<Rightarrow> (Abort e, [], st)
         | Inr t \<Rightarrow> (Redirect ''hours'', [], st\<lparr>hours_tbl := hours_tbl st @ [t]\<rparr>))"
      using hours_post_user_id [OF post i, of u st] nd by auto
    show ?thesis
    proof (cases "unparseable env req ''start''")
      case True
      with i show ?thesis
        by (simp add: h and_then_Inl datetime_field_unparseable)
    next
      case False
      with bad have e: "unparseable env req ''end''" by simp
      show ?thesis
      proof (cases "form req ''start'' = None")
        case True
        with i False show ?thesis
          by (simp add: h and_then_Inl datetime_field_absent)
      next
        case present: False
        from datetime_field_readable [OF False present]
        obtain t where "datetime_field env req ''start'' = Inr t" by blast
        with i False present e show ?thesis
          by (simp add: h and_then_Inl and_then_Inr datetime_field_unparseable)
      qed
    qed
  qed
qed

lemma deposit_unparseable:
  assumes post: "req_method req = POST" and m: "u_role u = ''manager''"
    and bad: "unparseable env req ''date''"
  shows "deposit env (Some u) req st =
     (Abort (case form req ''user_id'' of
               None \<Rightarrow> BadRequestKeyError
             | Some s \<Rightarrow>
                 (case py_int env s of
                    None \<Rightarrow> ValueError
                  | Some user_id \<Rightarrow>
                      if form req ''item'' = None then BadRequestKeyError
                      else ValueError)), [], st)"
proof -
  have d: "deposit env (Some u) req st =
     (case and_then (and_then (form_item req ''user_id'') (to_int env)) (\<lambda>user_id.
           and_then (form_item req ''item'') (\<lambda>item.
           and_then (float_field env req ''amount'') (\<lambda>amount.
           and_then (datetime_field env req ''date'') (\<lambda>d.
           commit_integer user_id
             \<lparr>d_id = next_id (map d_id (deposits_tbl st)), d_user_id = Some user_id,
                d_item = item, d_size = form_get req ''size'' '''', d_amount = amount,
                d_date = date_of env d, d_returned = (form req ''returned'' \<noteq> None),
                d_notes = form_get req ''notes'' ''''\<rparr>)))) of
        Inl e \<Rightarrow> (Abort e, [], st)
      | Inr d \<Rightarrow> (Redirect ''deposit'', [], st\<lparr>deposits_tbl := deposits_tbl st @ [d]\<rparr>))"
    using post m by (simp add: deposit_def login_required_def role_required_def)
  show ?thesis
  proof (cases "form req ''user_id''")
    case None
    then show ?thesis by (simp add: d form_item_eq and_then_Inl)
  next
    case (Some s)
    show ?thesis
    proof (cases "py_int env s")
      case None
      with Some show ?thesis
        by (simp add: d form_item_eq and_then_Inl and_then_Inr to_int_def)
    next
      case (Some uid)
      note i = \<open>form req ''user_id'' = Some s\<close> Some
      show ?thesis
      proof (cases "form req ''item''")
        case None
        with i show ?thesis
          by (simp add: d form_item_eq and_then_Inl and_then_Inr to_int_def)
      next
        case (Some item)
        from float_field_cases [of env req "''amount''"] i Some bad show ?thesis
          by (auto simp: d form_item_eq and_then_Inl and_then_Inr to_int_def
              datetime_field_unparseable)
      qed
    qed
  qed
qed

text \<open>
  Claim C6, as the code has it. The source has no handler for the ValueError of
  \<open>datetime.fromisoformat\<close>. A create request of an actor who passes the access check of
  its route, with a timestamp field that is present and unreadable, ends in an uncaught
  exception: the ValueError of a parser (status 500), or BadRequestKeyError (status 400)
  exactly when a field that the handler reads with \<open>request.form[...]\<close> before it meets
  an unreadable value is missing. No notice is flashed, there is no redirect, and no row
  is inserted. The fields read before the timestamp are \<open>employee\<close> for a shift (and
  \<open>start\<close> before \<open>end\<close>), \<open>customer\<close> and \<open>size\<close> for a reservation, none for a
  report, \<open>user_id\<close> for a time entry, \<open>user_id\<close> and \<open>item\<close> for a deposit. On
  \<open>/hours\<close> the access check is the one of \<open>check_denied\<close>: a waiter who names another
  user is refused before the timestamps are read.
\<close>

theorem create_with_unparseable_timestamp:
  assumes "req_method req = POST"
  shows "(u_role u \<in> {''shift_lead'', ''manager''}
            \<and> (unparseable env req ''start'' \<or> unparseable env req ''end'') \<longrightarrow>
            shifts env (Some u) req st =
              (Abort (if form req ''employee'' = None
                        \<or> (\<not> unparseable env req ''start'' \<and> form req ''start'' = None)
                      then BadRequestKeyError else ValueError), [], st))
       \<and> (u_role u \<in> {''shift_lead'', ''manager''} \<and> unparseable env req ''at'' \<longrightarrow>
            reservations env (Some u) req st =
              (Abort (if form req ''customer'' = None \<or> form req ''size'' = None
                      then BadRequestKeyError else ValueError), [], st))
       \<and> (u_role u \<in> {''shift_lead'', ''manager''} \<and> unparseable env req ''date'' \<longrightarrow>
            reports env (Some u) req st = (Abort ValueError, [], st))
       \<and> (\<not> check_denied env u (Hours req) st
            \<and> (unparseable env req ''start'' \<or> unparseable env req ''end'') \<longrightarrow>
            hours env (Some u) req st =
              (Abort (case form req ''user_id'' of
                        None \<Rightarrow> BadRequestKeyError
                      | Some s \<Rightarrow>
                          (case py_int env s of
                             None \<Rightarrow> ValueError
                           | Some user_id \<Rightarrow>
                               if \<not> unparseable env req ''start'' \<and> form req ''start'' = None
                               then BadRequestKeyError else ValueError)), [], st))
       \<and> (u_role u = ''manager'' \<and> unparseable env req ''date'' \<longrightarrow>
            deposit env (Some u) req st =
              (Abort (case form req ''user_id'' of
                        None \<Rightarrow> BadRequestKeyError
                      | Some s \<Rightarrow>
                          (case py_int env s of
                             None \<Rightarrow> ValueError
                           | Some user_id \<Rightarrow>
                               if form req ''item'' = None then BadRequestKeyError
                               else ValueError)), [], st))"
proof (intro conjI impI)
  assume "u_role u \<in> {''shift_lead'', ''manager''}
      \<and> (unparseable env req ''start'' \<or> unparseable env req ''end'')"
  then show "shifts env (Some u) req st =
      (Abort (if form req ''employee'' = None
                \<or> (\<not> unparseable env req ''start'' \<and> form req ''start'' = None)
              then BadRequestKeyError else ValueError), [], st)"
    using shifts_unparseable [OF assms, of u env st] by blast
next
  assume "u_role u \<in> {''shift_lead'', ''manager''} \<and> unparseable env req ''at''"
  then show "reservations env (Some u) req st =
      (Abort (if form req ''customer'' = None \<or> form req ''size'' = None
              then BadRequestKeyError else ValueError), [], st)"
    using reservations_unparseable [OF assms, of u env st] by blast
next
  assume "u_role u \<in> {''shift_lead'', ''manager''} \<and> unparseable env req ''date''"
  then show "reports env (Some u) req st = (Abort ValueError, [], st)"
    using reports_unparseable [OF assms, of u env st] by blast
next
  assume "\<not> check_denied env u (Hours req) st
      \<and> (unparseable env req ''start'' \<or> unparseable env req ''end'')"
  then show "hours env (Some u) req st =
      (Abort (case form req ''user_id'' of
                None \<Rightarrow> BadRequestKeyError
              | Some s \<Rightarrow>
                  (case py_int env s of
                     None \<Rightarrow> ValueError
                   | Some user_id \<Rightarrow>
                       if \<not> unparseable env req ''start'' \<and> form req ''start'' = None
                       then BadRequestKeyError else ValueError)), [], st)"
    using hours_unparseable [OF assms, of env u st] by blast
next
  assume "u_role u = ''manager'' \<and> unparseable env req ''date''"
  then show "deposit env (Some u) req st =
      (Abort (case form req ''user_id'' of
                None \<Rightarrow> BadRequestKeyError
              | Some s \<Rightarrow>
                  (case py_int env s of
                     None \<Rightarrow> ValueError
                   | Some user_id \<Rightarrow>
                       if form req ''item'' = None then BadRequestKeyError
                       else ValueError)), [], st)"
    using deposit_unparseable [OF assms, of u env st] by blast
qed

theorem create_with_unparseable_timestamp_witness:
  "req_method bad_reservation_request = POST \<and> u_role lead_user \<in> {''shift_lead'', ''manager''}
   \<and> unparseable sample_env bad_reservation_request ''at''
   \<and> reservations sample_env (Some lead_user) bad_reservation_request seeded
       = (Abort ValueError, [], seeded)
   \<and> req_method bad_own_hours_request = POST
   \<and> \<not> check_denied sample_env waiter_user (Hours bad_own_hours_request) seeded
   \<and> unparseable sample_env bad_own_hours_request ''start''
   \<and> hours sample_env (Some waiter_user) bad_own_hours_request seeded
       = (Abort ValueError, [], seeded)"
proof -
  have p: "req_method bad_reservation_request = POST"
    by (simp add: bad_reservation_request_def)
  have r: "u_role lead_user \<in> {''shift_lead'', ''manager''}" by (simp add: lead_user_def)
  have b: "unparseable sample_env bad_reservation_request ''at''"
    by (simp add: unparseable_def bad_reservation_request_def sample_env_def)
  have f: "form bad_reservation_request ''customer'' \<noteq> None"
    "form bad_reservation_request ''size'' \<noteq> None"
    by (simp_all add: bad_reservation_request_def)
  have x: "reservations sample_env (Some lead_user) bad_reservation_request seeded
       = (Abort ValueError, [], seeded)"
    using mp [OF create_with_unparseable_timestamp
        [OF p, of lead_user sample_env seeded, THEN conjunct2, THEN conjunct1]
        conjI [OF r b]] f
    by simp
  have p': "req_method bad_own_hours_request = POST"
    by (simp add: bad_own_hours_request_def)
  have i: "form bad_own_hours_request ''user_id'' = Some ''3''" "py_int sample_env ''3'' = Some 3"
    by (simp_all add: bad_own_hours_request_def sample_env_def)
  have n: "\<not> check_denied sample_env waiter_user (Hours bad_own_hours_request) seeded"
    using i by (simp add: form_item_def and_then_def to_int_def waiter_user_def)
  have b': "unparseable sample_env bad_own_hours_request ''start''"
    by (simp add: unparseable_def bad_own_hours_request_def sample_env_def)
  have y: "hours sample_env (Some waiter_user) bad_own_hours_request seeded
       = (Abort ValueError, [], seeded)"
    using mp [OF create_with_unparseable_timestamp
        [OF p', of waiter_user sample_env seeded, THEN conjunct2, THEN conjunct2,
          THEN conjunct2, THEN conjunct1]
        conjI [OF n disjI1 [OF b']]] i b'
    by simp
  show ?thesis using p r b x p' n b' y by simp
qed

text \<open>
  Claim C6 as stated fails: the shift lead's request to create a shift whose \<open>start\<close> is
  unreadable ends in the raw ValueError, not in a notice and a redirect.
\<close>

theorem shift_create_unparseable_start_counterexample:
  "form bad_shift_request ''start'' = Some ''morgen frueh''
   \<and> fromisoformat sample_env ''morgen frueh'' = None
   \<and> u_role lead_user = ''shift_lead''
   \<and> shifts sample_env (Some lead_user) bad_shift_request seeded
       = (Abort ValueError, [], seeded)"
  by (simp add: shifts_def login_required_def and_then_def form_item_def datetime_field_def
      to_datetime_def bad_shift_request_def lead_user_def sample_env_def)

subsection \<open>C4: the references of a created record\<close>

lemma and_then_eq_Inr: "(and_then m f = Inr y) = (\<exists>x. m = Inr x \<and> f x = Inr y)"
  by (cases m) (auto simp: and_then_def)

lemma commit_integer_eq_Inr: "(commit_integer n row = Inr r) = (sqlite_integer n \<and> r = row)"
  by (auto simp: commit_integer_def)

lemma reports_post_result:
  assumes "req_method req = POST" "reports env (Some u) req st = (resp, fl, st')"
  shows "st' = st \<or> (\<exists>rep. st' = st\<lparr>reports_tbl := reports_tbl st @ [rep]\<rparr>
            \<and> rep_lead_id rep = Some (u_id u))"
  using assms
  by (auto simp: reports_def login_required_def role_required_def and_then_eq_Inr
      split: if_splits sum.splits)

lemma hours_post_result:
  assumes "req_method req = POST" "hours env (Some u) req st = (resp, fl, st')"
  shows "st' = st \<or> (\<exists>t s uid. st' = st\<lparr>hours_tbl := hours_tbl st @ [t]\<rparr>
            \<and> form req ''user_id'' = Some s \<and> py_int env s = Some uid
            \<and> t_user_id t = Some uid)"
  using assms
  by (auto simp: hours_def login_required_def and_then_eq_Inr commit_integer_eq_Inr
      form_item_def to_int_def split: if_splits sum.splits option.splits)

lemma deposit_post_result:
  assumes "req_method req = POST" "deposit env (Some u) req st = (resp, fl, st')"
  shows "st' = st \<or> (\<exists>d s uid. st' = st\<lparr>deposits_tbl := deposits_tbl st @ [d]\<rparr>
            \<and> form req ''user_id'' = Some s \<and> py_int env s = Some uid
            \<and> d_user_id d = Some uid)"
  using assms
  by (auto simp: deposit_def login_required_def role_required_def and_then_eq_Inr
      commit_integer_eq_Inr form_item_def to_int_def
      split: if_splits sum.splits option.splits)

text \<open>
  What the create requests store in a reference field. A create request either leaves the
  store as it is or appends one row. The \<open>lead_id\<close> of a new shift report is the id of the actor, who is a
  stored user when the session's user is one. The \<open>user_id\<close> of a new time entry and of a
  new clothing deposit is the integer that the client supplied, stored as it is: no handler
  looks the user up, so the reference is to an existing user exactly when the client named
  one.
\<close>

theorem created_references:
  assumes "req_method req = POST"
  shows "(reports env (Some u) req st = (resp, fl, st') \<longrightarrow>
            st' = st
            \<or> (\<exists>rep. st' = st\<lparr>reports_tbl := reports_tbl st @ [rep]\<rparr>
                   \<and> rep_lead_id rep = Some (u_id u)
                   \<and> (u \<in> set (users_tbl st) \<longrightarrow> u_id u \<in> set (map u_id (users_tbl st')))))
       \<and> (hours env (Some u) req st = (resp, fl, st') \<longrightarrow>
            st' = st
            \<or> (\<exists>t s uid. st' = st\<lparr>hours_tbl := hours_tbl st @ [t]\<rparr>
                   \<and> form req ''user_id'' = Some s \<and> py_int env s = Some uid
                   \<and> t_user_id t = Some uid))
       \<and> (deposit env (Some u) req st = (resp, fl, st') \<longrightarrow>
            st' = st
            \<or> (\<exists>d s uid. st' = st\<lparr>deposits_tbl := deposits_tbl st @ [d]\<rparr>
                   \<and> form req ''user_id'' = Some s \<and> py_int env s = Some uid
                   \<and> d_user_id d = Some uid))"
proof -
  have c1: "reports env (Some u) req st = (resp, fl, st') \<longrightarrow>
            st' = st
            \<or> (\<exists>rep. st' = st\<lparr>reports_tbl := reports_tbl st @ [rep]\<rparr>
                   \<and> rep_lead_id rep = Some (u_id u)
                   \<and> (u \<in> set (users_tbl st) \<longrightarrow> u_id u \<in> set (map u_id (users_tbl st'))))"
  proof
    assume r: "reports env (Some u) req st = (resp, fl, st')"
    from reports_post_result [OF assms r]
    show "st' = st
            \<or> (\<exists>rep. st' = st\<lparr>reports_tbl := reports_tbl st @ [rep]\<rparr>
                   \<and> rep_lead_id rep = Some (u_id u)
                   \<and> (u \<in> set (users_tbl st) \<longrightarrow> u_id u \<in> set (map u_id (users_tbl st'))))"
      by auto
  qed
  have c2: "hours env (Some u) req st = (resp, fl, st') \<longrightarrow>
            st' = st
            \<or> (\<exists>t s uid. st' = st\<lparr>hours_tbl := hours_tbl st @ [t]\<rparr>
                   \<and> form req ''user_id'' = Some s \<and> py_int env s = Some uid
                   \<and> t_user_id t = Some uid)"
    using hours_post_result [OF assms] by blast
  have c3: "deposit env (Some u) req st = (resp, fl, st') \<longrightarrow>
            st' = st
            \<or> (\<exists>d s uid. st' = st\<lparr>deposits_tbl := deposits_tbl st @ [d]\<rparr>
                   \<and> form req ''user_id'' = Some s \<and> py_int env s = Some uid
                   \<and> d_user_id d = Some uid)"
    using deposit_post_result [OF assms] by blast
  show ?thesis by (rule conjI [OF c1 conjI [OF c2 c3]])
qed

theorem created_references_witness:
  "req_method report_request = POST \<and> lead_user \<in> set (users_tbl seeded)
   \<and> reports sample_env (Some lead_user) report_request seeded
       = (Redirect ''reports'', [],
          seeded\<lparr>reports_tbl := [\<lparr>rep_id = 1, rep_date = 31, rep_lead_id = Some 2,
            rep_revenue = Finite 0, rep_issues = ''keine'', rep_notes = ''''\<rparr>]\<rparr>)
   \<and> (seeded\<lparr>reports_tbl := [\<lparr>rep_id = 1, rep_date = 31, rep_lead_id = Some 2,
            rep_revenue = Finite 0, rep_issues = ''keine'', rep_notes = ''''\<rparr>]\<rparr> = seeded
       \<or> (\<exists>rep. seeded\<lparr>reports_tbl := [\<lparr>rep_id = 1, rep_date = 31, rep_lead_id = Some 2,
                 rep_revenue = Finite 0, rep_issues = ''keine'', rep_notes = ''''\<rparr>]\<rparr>
               = seeded\<lparr>reports_tbl := reports_tbl seeded @ [rep]\<rparr>
             \<and> rep_lead_id rep = Some (u_id lead_user)
             \<and> u_id lead_user \<in> set (map u_id (users_tbl seeded))))"
proof -
  have p: "req_method report_request = POST" by (simp add: report_request_def)
  have m: "lead_user \<in> set (users_tbl seeded)" by (simp add: seeded_def empty_store_def)
  have r: "reports sample_env (Some lead_user) report_request seeded
       = (Redirect ''reports'', [],
          seeded\<lparr>reports_tbl := [\<lparr>rep_id = 1, rep_date = 31, rep_lead_id = Some 2,
            rep_revenue = Finite 0, rep_issues = ''keine'', rep_notes = ''''\<rparr>]\<rparr>)"
    by (simp add: reports_def login_required_def role_required_def and_then_def
        datetime_field_def form_item_def to_datetime_def float_field_def form_get_def
        report_request_def lead_user_def sample_env_def seeded_def empty_store_def next_id_def)
  show ?thesis
    using created_references [OF p, of sample_env lead_user seeded "Redirect ''reports''" "[]"
        "seeded\<lparr>reports_tbl := [\<lparr>rep_id = 1, rep_date = 31, rep_lead_id = Some 2,
            rep_revenue = Finite 0, rep_issues = ''keine'', rep_notes = ''''\<rparr>]\<rparr>"]
      p m r
    by auto
qed

text \<open>
  Claim C4 says that no create inserts a row whose reference has no matching user, and the
  models declare \<open>user_id\<close> as a foreign key to \<open>user.id\<close>. On the provisioned store,
  whose users have the ids 1, 2 and 3, the manager's request to create a time entry for
  user 999 inserts the row.
\<close>

theorem hours_create_dangling_user:
  "py_int sample_env ''999'' = Some 999
   \<and> 999 \<notin> set (map u_id (users_tbl seeded))
   \<and> hours sample_env (Some admin_user) dangling_hours_request seeded
       = (Redirect ''hours'', [],
          seeded\<lparr>hours_tbl := [\<lparr>t_id = 1, t_user_id = Some 999, t_start = 540, t_end = 1020,
            t_note = ''''\<rparr>]\<rparr>)"
  by (simp add: hours_def login_required_def and_then_def datetime_field_def form_item_def
      to_int_def to_datetime_def form_get_def commit_integer_def sqlite_integer_def
      dangling_hours_request_def admin_user_def lead_user_def waiter_user_def sample_env_def
      seeded_def empty_store_def next_id_def)

subsection \<open>C9: the order of the lists\<close>

text \<open>\<open>order_by\<close> returns the rows of the table, sorted by the comparison, for every
  comparison that is total and transitive.\<close>

lemma mset_insort_by: "mset (insort_by le x xs) = add_mset x (mset xs)"
  by (induction xs) auto

lemma mset_order_by: "mset (order_by le xs) = mset xs"
  by (induction xs) (auto simp: order_by_def mset_insort_by)

lemma set_insort_by: "set (insort_by le x xs) = insert x (set xs)"
  by (induction xs) auto

lemma sorted_insort_by:
  assumes tot: "\<And>a b. le a b \<or> le b a"
    and tr: "\<And>a b c. le a b \<Longrightarrow> le b c \<Longrightarrow> le a c"
  shows "sorted_wrt le xs \<Longrightarrow> sorted_wrt le (insort_by le x xs)"
proof (induction xs)
  case Nil
  then show ?case by simp
next
  case (Cons y ys)
  show ?case
  proof (cases "le x y")
    case True
    have "\<forall>z\<in>set ys. le x z"
    proof
      fix z assume "z \<in> set ys"
      with Cons.prems have "le y z" by simp
      with True show "le x z" by (rule tr)
    qed
    with True Cons.prems show ?thesis by simp
  next
    case False
    with tot [of x y] have yx: "le y x" by blast
    from Cons.prems have "sorted_wrt le ys" and ys: "\<forall>z\<in>set ys. le y z" by simp_all
    with Cons.IH have "sorted_wrt le (insort_by le x ys)" by simp
    with False yx ys show ?thesis by (simp add: set_insort_by)
  qed
qed

lemma sorted_order_by:
  assumes tot: "\<And>a b. le a b \<or> le b a"
    and tr: "\<And>a b c. le a b \<Longrightarrow> le b c \<Longrightarrow> le a c"
  shows "sorted_wrt le (order_by le xs)"
proof (induction xs)
  case Nil
  then show ?case by (simp add: order_by_def)
next
  case (Cons x xs)
  have "order_by le (x # xs) = insort_by le x (order_by le xs)"
    by (simp add: order_by_def)
  with Cons sorted_insort_by [of le "order_by le xs" x, OF tot tr] show ?case by simp
qed

lemma sorted_desc: "sorted_wrt (desc f) (order_by (desc f) xs)"
  by (rule sorted_order_by) (auto simp: desc_def)

lemma sorted_asc: "sorted_wrt (asc f) (order_by (asc f) xs)"
  by (rule sorted_order_by) (auto simp: asc_def)

lemma sorted_role_desc_username_asc:
  "sorted_wrt role_desc_username_asc (order_by role_desc_username_asc xs)"
  by (rule sorted_order_by) (auto simp: role_desc_username_asc_def)

text \<open>
  Claim C9, as the code has it. Every list contains exactly the rows of its table (for a
  waiter's hours: the waiter's own entries). Shifts and hours are ordered by \<open>start\<close>
  descending, reservations by \<open>at\<close> descending, reports and deposits by \<open>date\<close>
  descending. The Team list is ordered by role descending, then username ascending. The
  Users list, and the user lists on the hours and deposit pages, are ordered by username
  ascending.
\<close>

theorem list_orderings:
  assumes "req_method req = GET"
  shows "(\<exists>xs. team (Some u) st = (Render (TeamPage xs), [], st)
            \<and> sorted_wrt role_desc_username_asc xs \<and> mset xs = mset (users_tbl st))
       \<and> (\<exists>xs. shifts env (Some u) req st = (Render (ShiftsPage xs), [], st)
            \<and> sorted_wrt (desc s_start) xs \<and> mset xs = mset (shifts_tbl st))
       \<and> (u_role u \<in> {''shift_lead'', ''manager''} \<longrightarrow>
            (\<exists>xs. reservations env (Some u) req st = (Render (ReservationsPage xs), [], st)
               \<and> sorted_wrt (desc r_at) xs \<and> mset xs = mset (reservations_tbl st)))
       \<and> (u_role u \<in> {''shift_lead'', ''manager''} \<longrightarrow>
            (\<exists>xs. reports env (Some u) req st = (Render (ReportsPage xs), [], st)
               \<and> sorted_wrt (desc rep_date) xs \<and> mset xs = mset (reports_tbl st)))
       \<and> (u_role u = ''waiter'' \<longrightarrow>
            (\<exists>xs. hours env (Some u) req st = (Render (HoursPage xs [u]), [], st)
               \<and> sorted_wrt (desc t_start) xs
               \<and> mset xs = mset (filter (\<lambda>t. t_user_id t = Some (u_id u)) (hours_tbl st))))
       \<and> (u_role u \<noteq> ''waiter'' \<longrightarrow>
            (\<exists>xs us. hours env (Some u) req st = (Render (HoursPage xs us), [], st)
               \<and> sorted_wrt (desc t_start) xs \<and> mset xs = mset (hours_tbl st)
               \<and> sorted_wrt (asc u_username) us \<and> mset us = mset (users_tbl st)))
       \<and> (u_role u = ''manager'' \<longrightarrow>
            (\<exists>xs us. deposit env (Some u) req st = (Render (DepositPage xs us), [], st)
               \<and> sorted_wrt (desc d_date) xs \<and> mset xs = mset (deposits_tbl st)
               \<and> sorted_wrt (asc u_username) us \<and> mset us = mset (users_tbl st)))
       \<and> (u_role u = ''manager'' \<longrightarrow>
            (\<exists>xs. users env (Some u) req st = (Render (UsersPage xs), [], st)
               \<and> sorted_wrt (asc u_username) xs \<and> mset xs = mset (users_tbl st)))"
proof -
  have c1: "\<exists>xs. team (Some u) st = (Render (TeamPage xs), [], st)
            \<and> sorted_wrt role_desc_username_asc xs \<and> mset xs = mset (users_tbl st)"
    by (simp add: team_def login_required_def sorted_role_desc_username_asc mset_order_by)
  have c2: "\<exists>xs. shifts env (Some u) req st = (Render (ShiftsPage xs), [], st)
            \<and> sorted_wrt (desc s_start) xs \<and> mset xs = mset (shifts_tbl st)"
    using assms by (simp add: shifts_def login_required_def sorted_desc mset_order_by)
  have c3: "u_role u \<in> {''shift_lead'', ''manager''} \<longrightarrow>
            (\<exists>xs. reservations env (Some u) req st = (Render (ReservationsPage xs), [], st)
               \<and> sorted_wrt (desc r_at) xs \<and> mset xs = mset (reservations_tbl st))"
    using assms
    by (auto simp: reservations_def login_required_def role_required_def sorted_desc
        mset_order_by)
  have c4: "u_role u \<in> {''shift_lead'', ''manager''} \<longrightarrow>
            (\<exists>xs. reports env (Some u) req st = (Render (ReportsPage xs), [], st)
               \<and> sorted_wrt (desc rep_date) xs \<and> mset xs = mset (reports_tbl st))"
    using assms
    by (auto simp: reports_def login_required_def role_required_def sorted_desc mset_order_by)
  have c5: "u_role u = ''waiter'' \<longrightarrow>
            (\<exists>xs. hours env (Some u) req st = (Render (HoursPage xs [u]), [], st)
               \<and> sorted_wrt (desc t_start) xs
               \<and> mset xs = mset (filter (\<lambda>t. t_user_id t = Some (u_id u)) (hours_tbl st)))"
    using assms
    by (simp add: hours_def login_required_def sorted_desc mset_order_by del: mset_filter)
  have c6: "u_role u \<noteq> ''waiter'' \<longrightarrow>
            (\<exists>xs us. hours env (Some u) req st = (Render (HoursPage xs us), [], st)
               \<and> sorted_wrt (desc t_start) xs \<and> mset xs = mset (hours_tbl st)
               \<and> sorted_wrt (asc u_username) us \<and> mset us = mset (users_tbl st))"
    using assms
    by (simp add: hours_def login_required_def sorted_desc sorted_asc mset_order_by)
  have c7: "u_role u = ''manager'' \<longrightarrow>
            (\<exists>xs us. deposit env (Some u) req st = (Render (DepositPage xs us), [], st)
               \<and> sorted_wrt (desc d_date) xs \<and> mset xs = mset (deposits_tbl st)
               \<and> sorted_wrt (asc u_username) us \<and> mset us = mset (users_tbl st))"
    using assms
    by (simp add: deposit_def login_required_def role_required_def sorted_desc sorted_asc
        mset_order_by)
  have c8: "u_role u = ''manager'' \<longrightarrow>
            (\<exists>xs. users env (Some u) req st = (Render (UsersPage xs), [], st)
               \<and> sorted_wrt (asc u_username) xs \<and> mset xs = mset (users_tbl st))"
    using assms
    by (simp add: users_def login_required_def role_required_def sorted_asc mset_order_by)
  show ?thesis
    by (rule conjI [OF c1 conjI [OF c2 conjI [OF c3 conjI [OF c4 conjI [OF c5 conjI [OF c6
        conjI [OF c7 c8]]]]]]])
qed

theorem list_orderings_witness:
  "req_method list_request = GET \<and> u_role admin_user = ''manager''
   \<and> (\<exists>xs. users sample_env (Some admin_user) list_request seeded
              = (Render (UsersPage xs), [], seeded)
          \<and> sorted_wrt (asc u_username) xs \<and> mset xs = mset (users_tbl seeded))
   \<and> (\<exists>xs. team (Some admin_user) seeded = (Render (TeamPage xs), [], seeded)
          \<and> sorted_wrt role_desc_username_asc xs \<and> mset xs = mset (users_tbl seeded))"
proof -
  have g: "req_method list_request = GET" by (simp add: list_request_def)
  have m: "u_role admin_user = ''manager''" by (simp add: admin_user_def)
  show ?thesis
    using list_orderings [OF g, of admin_user seeded sample_env] g m by blast
qed

text \<open>
  Claim C9 as stated puts the Users list with the Team list. On the provisioned store the
  Users list is admin, lead, waiter, which is not in the order of role descending; the
  Team list of the same store is waiter, lead, admin.
\<close>

theorem users_list_order_counterexample:
  "users sample_env (Some admin_user) list_request seeded
     = (Render (UsersPage [admin_user, lead_user, waiter_user]), [], seeded)
   \<and> \<not> sorted_wrt role_desc_username_asc [admin_user, lead_user, waiter_user]
   \<and> team (Some admin_user) seeded
     = (Render (TeamPage [waiter_user, lead_user, admin_user]), [], seeded)"
  by (simp add: users_def team_def login_required_def role_required_def list_request_def
      seeded_def empty_store_def order_by_def asc_def role_desc_username_asc_def
      admin_user_def lead_user_def waiter_user_def)

subsection \<open>C8: denied operations\<close>

lemma role_denied_dashboard:
  "role_denied u opn \<Longrightarrow>
   dispatch env (Some u) opn st = (Redirect ''dashboard'', [Keine_Berechtigung], st)"
  by (cases opn)
    (simp_all add: role_denied_def login_required_def role_required_def shifts_delete_def
      reservations_def res_delete_def reports_def reports_delete_def deposit_def
      deposit_toggle_def deposit_delete_def users_def users_delete_def)

lemma check_denied_list_page:
  "check_denied env u opn st \<Longrightarrow>
   \<exists>notice. dispatch env (Some u) opn st = (Redirect (list_page opn), [notice], st)"
proof (cases opn)
  case (Shifts req)
  assume "check_denied env u opn st"
  with Shifts show ?thesis by (simp add: shifts_def login_required_def)
next
  case (Hours req)
  assume "check_denied env u opn st"
  with Hours show ?thesis
    by (auto simp: hours_def login_required_def split: sum.splits)
next
  case (Hours_delete i)
  assume "check_denied env u opn st"
  with Hours_delete show ?thesis
    by (auto simp: hours_delete_def login_required_def split: option.splits)
next
  case (Users_delete i)
  assume "check_denied env u opn st"
  with Users_delete show ?thesis
    by (simp add: users_delete_def login_required_def role_required_def)
qed simp_all

text \<open>
  Claim C8, as the code has it. An operation that the role requirement of its route
  refuses leaves the store unchanged, flashes "Keine Berechtigung" and redirects to the
  dashboard. An operation that a check inside the view function refuses (the creation of a
  shift by an actor who is neither shift lead nor manager, a waiter's creation or deletion
  of another user's time entry, a manager's deletion of the own account) leaves the store
  unchanged, flashes one notice and redirects to the list page of its resource.
\<close>

theorem denied_operations:
  "(role_denied u opn \<longrightarrow>
      dispatch env (Some u) opn st = (Redirect ''dashboard'', [Keine_Berechtigung], st))
   \<and> (check_denied env u opn st \<longrightarrow>
      (\<exists>notice. dispatch env (Some u) opn st = (Redirect (list_page opn), [notice], st)))"
  using role_denied_dashboard [of u opn env st] check_denied_list_page [of env u opn st]
  by blast

theorem denied_operations_witness:
  "role_denied waiter_user (Deposit_toggle 1)
   \<and> dispatch sample_env (Some waiter_user) (Deposit_toggle 1) staff_store
       = (Redirect ''dashboard'', [Keine_Berechtigung], staff_store)
   \<and> check_denied sample_env waiter_user (Hours_delete 2) staff_store
   \<and> (\<exists>notice. dispatch sample_env (Some waiter_user) (Hours_delete 2) staff_store
         = (Redirect ''hours'', [notice], staff_store))"
proof -
  have r: "role_denied waiter_user (Deposit_toggle 1)"
    by (simp add: role_denied_def waiter_user_def)
  have c: "check_denied sample_env waiter_user (Hours_delete 2) staff_store"
    by (simp add: staff_store_def waiter_entry_def lead_entry_def waiter_user_def)
  show ?thesis
    using denied_operations [of waiter_user "Deposit_toggle 1" sample_env staff_store]
      denied_operations [of waiter_user "Hours_delete 2" sample_env staff_store] r c
    by simp
qed

text \<open>
  Claim C8 as stated sends every denied caller back to the originating list page. A
  waiter's request to create a reservation is answered with a redirect to the dashboard,
  not to the reservations list.
\<close>

theorem role_denied_redirect_counterexample:
  "u_role waiter_user \<noteq> ''shift_lead'' \<and> u_role waiter_user \<noteq> ''manager''
   \<and> dispatch sample_env (Some waiter_user) (Reservations reservation_request) seeded
       = (Redirect ''dashboard'', [Keine_Berechtigung], seeded)
   \<and> list_page (Reservations reservation_request) = ''reservations''
   \<and> ''dashboard'' \<noteq> ''reservations''"
  by (simp add: reservations_def login_required_def role_required_def waiter_user_def)

end
